theory Spec2Isabelle
  imports Complex_Main "HOL-Library.AList" "HOL-Library.Multiset"
begin

section \<open>Strings\<close>

text \<open>
  Python strings are modelled as HOL strings: a character is a code point below 256, that
  is, ASCII and the Latin-1 supplement. \<open>str.lower()\<close> maps the letters A to Z to a to z
  and the upper-case letters of the supplement (0xC0 to 0xDE without the multiplication
  sign 0xD7) to the letters 32 above them; every other character is kept.
\<close>

definition upper_letters :: string where
  "upper_letters = ''ABCDEFGHIJKLMNOPQRSTUVWXYZ'' @
     [CHR 0xC0, CHR 0xC1, CHR 0xC2, CHR 0xC3, CHR 0xC4, CHR 0xC5, CHR 0xC6, CHR 0xC7,
      CHR 0xC8, CHR 0xC9, CHR 0xCA, CHR 0xCB, CHR 0xCC, CHR 0xCD, CHR 0xCE, CHR 0xCF,
      CHR 0xD0, CHR 0xD1, CHR 0xD2, CHR 0xD3, CHR 0xD4, CHR 0xD5, CHR 0xD6, CHR 0xD8,
      CHR 0xD9, CHR 0xDA, CHR 0xDB, CHR 0xDC, CHR 0xDD, CHR 0xDE]"

definition lower_letters :: string where
  "lower_letters = ''abcdefghijklmnopqrstuvwxyz'' @
     [CHR 0xE0, CHR 0xE1, CHR 0xE2, CHR 0xE3, CHR 0xE4, CHR 0xE5, CHR 0xE6, CHR 0xE7,
      CHR 0xE8, CHR 0xE9, CHR 0xEA, CHR 0xEB, CHR 0xEC, CHR 0xED, CHR 0xEE, CHR 0xEF,
      CHR 0xF0, CHR 0xF1, CHR 0xF2, CHR 0xF3, CHR 0xF4, CHR 0xF5, CHR 0xF6, CHR 0xF8,
      CHR 0xF9, CHR 0xFA, CHR 0xFB, CHR 0xFC, CHR 0xFD, CHR 0xFE]"

definition lower_char :: "char \<Rightarrow> char" where
  "lower_char c = (case map_of (zip upper_letters lower_letters) c of Some d \<Rightarrow> d | None \<Rightarrow> c)"

definition lower :: "string \<Rightarrow> string" where
  "lower s = map lower_char s"

text \<open>\<open>s.startswith(p)\<close>, \<open>sub in s\<close> and \<open>s.endswith(p)\<close>.\<close>

fun startswith :: "string \<Rightarrow> string \<Rightarrow> bool" where
  "startswith s [] = True"
| "startswith [] (p # ps) = False"
| "startswith (c # cs) (p # ps) = (c = p \<and> startswith cs ps)"

fun contains :: "string \<Rightarrow> string \<Rightarrow> bool" where
  "contains [] sub = (sub = [])"
| "contains (c # cs) sub = (startswith (c # cs) sub \<or> contains cs sub)"

definition endswith :: "string \<Rightarrow> string \<Rightarrow> bool" where
  "endswith s p = startswith (rev s) (rev p)"

section \<open>ContentOptimizer.has_sufficient_research\<close>

text \<open>
  The snapshot \<open>collected_data\<close> is a dictionary. The function reads two of its keys, each of
  which may be absent: \<open>academic_sources\<close>, a dictionary of four lists (each key may be absent,
  \<open>.get(key, [])\<close>), and \<open>research_results\<close>, a dictionary from subtopic to section. Only the
  length of the four lists is read, so their elements are of an arbitrary type. A dictionary
  is modelled by the list of its items in iteration order; \<open>len\<close> of the dictionary is the
  length of that list. A section value is either not a dictionary, or a dictionary whose
  \<open>content\<close> key is absent or holds a string.
\<close>

record 'p academic_sources =
  arxiv_papers :: "'p list option"
  doi_papers :: "'p list option"
  academic_pdfs :: "'p list option"
  statistics_sources :: "'p list option"

datatype section_data = NotADict | SectionDict "string option"

record 'p collected_data =
  cd_academic_sources :: "'p academic_sources option"
  cd_research_results :: "(string \<times> section_data) list option"

text \<open>\<open>d.get(key, [])\<close> for a key holding a list.\<close>

definition get_list :: "'a list option \<Rightarrow> 'a list" where
  "get_list v = (case v of None \<Rightarrow> [] | Some xs \<Rightarrow> xs)"

text \<open>
  The loop condition
  \<open>isinstance(data, dict) and 'content' in data and len(data.get('content', '')) >= 500\<close>.
\<close>

fun long_content :: "section_data \<Rightarrow> bool" where
  "long_content NotADict = False"
| "long_content (SectionDict None) = False"
| "long_content (SectionDict (Some c)) = (500 \<le> length c)"

text \<open>The \<open>for subtopic, data in research_results.items()\<close> loop with its counter.\<close>

fun count_content :: "(string \<times> section_data) list \<Rightarrow> nat \<Rightarrow> nat" where
  "count_content [] content_count = content_count"
| "count_content ((subtopic, data) # rest) content_count =
     count_content rest (if long_content data then content_count + 1 else content_count)"

definition has_sufficient_research :: "'p collected_data \<Rightarrow> bool" where
  "has_sufficient_research collected_data =
     (let academic_sources =
            (case cd_academic_sources collected_data of
               None \<Rightarrow> 0
             | Some a \<Rightarrow> length (get_list (arxiv_papers a)) +
                         length (get_list (doi_papers a)) +
                         length (get_list (academic_pdfs a)))
      in if academic_sources < 3 then False
         else
           let stats_sources =
                 (case cd_academic_sources collected_data of
                    None \<Rightarrow> 0
                  | Some a \<Rightarrow> length (get_list (statistics_sources a)))
           in if stats_sources < 2 then False
              else
                let research_results =
                      (case cd_research_results collected_data of None \<Rightarrow> [] | Some r \<Rightarrow> r)
                in if length research_results < 3 then False
                   else 3 \<le> count_content research_results 0)"

text \<open>
  The four gates as the specification words them: the combined number of arXiv papers, DOI
  papers and academic PDFs; the number of statistics sources; the number of sections; the
  number of sections with at least 500 characters of content.
\<close>

definition academic_count :: "'p collected_data \<Rightarrow> nat" where
  "academic_count d =
     (case cd_academic_sources d of
        None \<Rightarrow> 0
      | Some a \<Rightarrow> length (get_list (arxiv_papers a)) + length (get_list (doi_papers a)) +
                  length (get_list (academic_pdfs a)))"

definition statistics_count :: "'p collected_data \<Rightarrow> nat" where
  "statistics_count d =
     (case cd_academic_sources d of None \<Rightarrow> 0 | Some a \<Rightarrow> length (get_list (statistics_sources a)))"

definition sections_of :: "'p collected_data \<Rightarrow> (string \<times> section_data) list" where
  "sections_of d = (case cd_research_results d of None \<Rightarrow> [] | Some r \<Rightarrow> r)"

definition section_chars :: "section_data \<Rightarrow> nat" where
  "section_chars s = (case s of SectionDict (Some c) \<Rightarrow> length c | _ \<Rightarrow> 0)"

definition long_sections :: "'p collected_data \<Rightarrow> (string \<times> section_data) list" where
  "long_sections d = filter (\<lambda>kv. 500 \<le> section_chars (snd kv)) (sections_of d)"

text \<open>Snapshots at the boundaries of the gates, for concrete runs.\<close>

definition three_papers :: "string academic_sources" where
  "three_papers =
     \<lparr> arxiv_papers = Some [''p1''], doi_papers = Some [''p2''], academic_pdfs = Some [''p3''],
       statistics_sources = Some [''s1'', ''s2''] \<rparr>"

definition section_of_length :: "nat \<Rightarrow> section_data" where
  "section_of_length n = SectionDict (Some (replicate n CHR ''x''))"

definition three_sections :: "nat \<Rightarrow> (string \<times> section_data) list" where
  "three_sections n =
     [(''a'', section_of_length 500), (''b'', section_of_length 500), (''c'', section_of_length n)]"

section \<open>SourceReference and Citation\<close>

text \<open>
  A \<open>SourceReference\<close> object. \<open>publication_date\<close> is declared a string with default \<open>None\<close>;
  \<open>calculate_scores\<close> also asks whether it is a string, so a value of another type is a case
  of its own: \<open>DateOther b s\<close> is a value of another type, with its truth value \<open>b\<close> (false
  for 0, for instance) and the text \<open>s\<close> that \<open>str\<close> gives for it.
  The scores are Python floats, modelled as real numbers. The optional string fields are
  \<open>None\<close> or a string.
\<close>

datatype date_field = NoDate | DateStr string | DateOther bool string

record source_reference =
  ref_id :: string
  ref_title :: string
  ref_url :: string
  authors :: "string list"
  publication_date :: date_field
  ref_source_type :: string
  publisher :: "string option"
  journal :: "string option"
  doi :: "string option"
  citation_number :: "int option"
  relevance_score :: real
  quality_score :: real
  recency_score :: real
  authority_score :: real

text \<open>
  \<open>SourceReference.__init__\<close>; \<open>uuid\<close> is the fresh identifier drawn by \<open>uuid.uuid4()\<close>, and
  \<open>authors\<close> is \<open>None\<close> or a list (\<open>authors or []\<close>).
\<close>

definition source_reference_init ::
    "string \<Rightarrow> string \<Rightarrow> string \<Rightarrow> string list option \<Rightarrow> date_field \<Rightarrow> string \<Rightarrow>
     string option \<Rightarrow> string option \<Rightarrow> string option \<Rightarrow> source_reference" where
  "source_reference_init uuid title url authors' publication_date' source_type
       publisher' journal' doi' =
     \<lparr> ref_id = uuid, ref_title = title, ref_url = url,
       authors = (case authors' of None \<Rightarrow> [] | Some as \<Rightarrow> as),
       publication_date = publication_date', ref_source_type = source_type,
       publisher = publisher', journal = journal', doi = doi',
       citation_number = None, relevance_score = 0.5, quality_score = 0.5,
       recency_score = 0.5, authority_score = 0.5 \<rparr>"

text \<open>
  \<open>calculate_scores\<close>. The library call \<open>datetime.datetime.strptime(s, fmt).date()\<close> is the
  parameter \<open>strptime\<close>: it gives the parsed date as a day number, or \<open>None\<close> where the call
  raises \<open>ValueError\<close>. \<open>today\<close> is the day number of \<open>datetime.date.today()\<close>, so that
  \<open>(today - pub_date).days\<close> is the difference of the two numbers.
\<close>

definition date_formats :: "string list" where
  "date_formats = [''%Y-%m-%d'', ''%Y/%m/%d'', ''%B %d, %Y'', ''%d %B %Y'', ''%Y'']"

text \<open>The \<open>for fmt in (...)\<close> loop: the first format that parses ends it (\<open>break\<close>).\<close>

fun try_formats :: "(string \<Rightarrow> string \<Rightarrow> int option) \<Rightarrow> string \<Rightarrow> string list \<Rightarrow> int option" where
  "try_formats strptime s [] = None"
| "try_formats strptime s (fmt # fmts) =
     (case strptime s fmt of
        Some pub_date \<Rightarrow> Some pub_date
      | None \<Rightarrow> try_formats strptime s fmts)"

text \<open>Truth value of a string that may be \<open>None\<close>: \<open>None\<close> and the empty string are falsy.\<close>

definition truthy :: "string option \<Rightarrow> bool" where
  "truthy v = (case v of None \<Rightarrow> False | Some s \<Rightarrow> s \<noteq> [])"

definition calculate_scores ::
    "(string \<Rightarrow> string \<Rightarrow> int option) \<Rightarrow> int \<Rightarrow> source_reference \<Rightarrow> source_reference" where
  "calculate_scores strptime today r0 =
     (let pub_date =
            (case publication_date r0 of
               DateStr s \<Rightarrow> if s \<noteq> [] then try_formats strptime s date_formats else None
             | _ \<Rightarrow> None);
          r = (case pub_date of
                 None \<Rightarrow> r0
               | Some d \<Rightarrow>
                   let days_old = today - d
                   in if days_old < 365 then r0\<lparr>recency_score := 0.9\<rparr>
                      else if days_old < 365 * 3 then r0\<lparr>recency_score := 0.7\<rparr>
                      else if days_old < 365 * 5 then r0\<lparr>recency_score := 0.5\<rparr>
                      else r0\<lparr>recency_score := 0.3\<rparr>);
          r = (if ref_source_type r = ''arxiv'' then r\<lparr>authority_score := 0.8\<rparr>
               else if ref_source_type r = ''journal'' \<and> truthy (journal r)
                 then r\<lparr>authority_score := 0.9\<rparr>
               else if ref_source_type r = ''wikipedia'' then r\<lparr>authority_score := 0.6\<rparr>
               else if contains (ref_url r) ''github'' \<or> contains (ref_url r) ''edu''
                 then r\<lparr>authority_score := 0.7\<rparr>
               else r)
      in r\<lparr>quality_score := (relevance_score r + recency_score r + authority_score r) / 3\<rparr>)"

text \<open>
  The age buckets as the claim words them, on the age in days: under one year, under
  three years, under five years, older.
\<close>

definition recency_bucket :: "int \<Rightarrow> real" where
  "recency_bucket days_old =
     (if days_old < 365 then 0.9
      else if days_old < 3 * 365 then 0.7
      else if days_old < 5 * 365 then 0.5
      else 0.3)"

text \<open>
  The \<open>Citation\<close> registry. Its two dictionaries are lists of items in insertion order with
  distinct keys: \<open>map_of\<close> looks a key up, and \<open>AList.update\<close> is the assignment \<open>d[k] = v\<close>
  (a present key keeps its place, a new key goes to the end).
\<close>

record citation =
  references :: "(string \<times> source_reference) list"
  reference_map :: "(string \<times> string) list"
  style :: string
  citation_counter :: int

definition citation_init :: "string \<Rightarrow> citation" where
  "citation_init style' =
     \<lparr> references = [], reference_map = [], style = style', citation_counter = 1 \<rparr>"

text \<open>
  \<open>add_reference\<close> returns \<open>reference.id\<close>. On a new url it also writes the citation number
  into the reference object, which is the object stored; the updated registry is returned
  with the identifier.
\<close>

definition add_reference :: "citation \<Rightarrow> source_reference \<Rightarrow> string \<times> citation" where
  "add_reference c reference =
     (if map_of (references c) (ref_url reference) = None then
        let reference = reference\<lparr>citation_number := Some (citation_counter c)\<rparr>;
            c = c\<lparr>citation_counter := citation_counter c + 1\<rparr>;
            c = c\<lparr>references := AList.update (ref_url reference) reference (references c)\<rparr>;
            c = c\<lparr>reference_map :=
                    AList.update (ref_id reference) (ref_url reference) (reference_map c)\<rparr>
        in (ref_id reference, c)
      else (ref_id reference, c))"

text \<open>A sequence of \<open>add_reference\<close> calls.\<close>

fun add_references :: "citation \<Rightarrow> source_reference list \<Rightarrow> citation" where
  "add_references c [] = c"
| "add_references c (r # rs) = add_references (snd (add_reference c r)) rs"

text \<open>
  The numbering of a registry built by \<open>add_reference\<close> alone: the entries carry the numbers
  1, 2, ... in insertion order and the counter is the next number.
\<close>

definition consecutive :: "citation \<Rightarrow> bool" where
  "consecutive c \<longleftrightarrow>
     citation_counter c = 1 + int (length (references c)) \<and>
     map (citation_number \<circ> snd) (references c) = map Some [1 .. int (length (references c))]"

text \<open>\<open>str(n)\<close> for an integer.\<close>

fun str_nat :: "nat \<Rightarrow> string" where
  "str_nat n =
     (if n < 10 then [''0123456789'' ! n]
      else str_nat (n div 10) @ [''0123456789'' ! (n mod 10)])"

definition str_int :: "int \<Rightarrow> string" where
  "str_int i = (if i < 0 then ''-'' @ str_nat (nat (- i)) else str_nat (nat i))"

text \<open>
  The citation formats. Inside an f-string a field is printed with \<open>str\<close>: \<open>date_text\<close> is
  that text for the publication date, and \<open>text_of\<close> for a string field that may be \<open>None\<close>.
  \<open>last_segment\<close> is \<open>url.split('/')[-1]\<close>.
\<close>

definition date_truthy :: "date_field \<Rightarrow> bool" where
  "date_truthy d = (case d of NoDate \<Rightarrow> False | DateStr s \<Rightarrow> s \<noteq> [] | DateOther b s \<Rightarrow> b)"

definition date_text :: "date_field \<Rightarrow> string" where
  "date_text d = (case d of NoDate \<Rightarrow> ''None'' | DateStr s \<Rightarrow> s | DateOther b s \<Rightarrow> s)"

definition text_of :: "string option \<Rightarrow> string" where
  "text_of v = (case v of None \<Rightarrow> ''None'' | Some s \<Rightarrow> s)"

definition last_segment :: "string \<Rightarrow> string" where
  "last_segment s = rev (takeWhile (\<lambda>c. c \<noteq> CHR ''/'') (rev s))"

definition format_apa :: "source_reference \<Rightarrow> string" where
  "format_apa r =
     (let citation = [];
          citation =
            (case authors r of
               [] \<Rightarrow> citation
             | [a] \<Rightarrow> citation @ a @ ''. ''
             | [a, b] \<Rightarrow> citation @ a @ '' & '' @ b @ ''. ''
             | a # _ \<Rightarrow> citation @ a @ '' et al. '');
          citation =
            (if date_truthy (publication_date r)
             then citation @ ''('' @ date_text (publication_date r) @ ''). ''
             else citation);
          citation = citation @ ref_title r @ ''. ''
      in if ref_source_type r = ''journal'' \<and> truthy (journal r) then
           (let citation = citation @ text_of (journal r)
            in if truthy (doi r) then citation @ ''. https://doi.org/'' @ text_of (doi r)
               else citation)
         else if ref_source_type r = ''arxiv'' then
           citation @ ''arXiv preprint arXiv:'' @ last_segment (ref_url r)
         else if ref_source_type r = ''book'' \<and> truthy (publisher r) then
           citation @ text_of (publisher r)
         else citation @ ''Retrieved from '' @ ref_url r)"

text \<open>The suffix \<open>, {publication_date}\<close> that the other two formats add when there is a date.\<close>

definition date_suffix :: "source_reference \<Rightarrow> string" where
  "date_suffix r =
     (if date_truthy (publication_date r) then '', '' @ date_text (publication_date r) else [])"

definition format_mla :: "source_reference \<Rightarrow> string" where
  "format_mla r =
     (let citation = [];
          citation =
            (case authors r of
               [] \<Rightarrow> citation
             | [a] \<Rightarrow> citation @ a @ ''. ''
             | [a, b] \<Rightarrow> citation @ a @ '' and '' @ b @ ''. ''
             | a # _ \<Rightarrow> citation @ a @ '' et al. '');
          citation = citation @ [CHR 0x22] @ ref_title r @ ''.'' @ [CHR 0x22] @ '' ''
      in if ref_source_type r = ''journal'' \<and> truthy (journal r) then
           citation @ text_of (journal r) @ date_suffix r
         else if ref_source_type r = ''arxiv'' then
           citation @ ''arXiv'' @ date_suffix r
         else if ref_source_type r = ''book'' \<and> truthy (publisher r) then
           citation @ text_of (publisher r) @ date_suffix r
         else citation @ ref_url r @ date_suffix r)"

definition format_chicago :: "source_reference \<Rightarrow> string" where
  "format_chicago r = format_apa r"

definition format_harvard :: "source_reference \<Rightarrow> string" where
  "format_harvard r = format_apa r"

text \<open>The \<open>for author in self.authors[:-1]\<close> loop of the IEEE format.\<close>

fun join_authors :: "string list \<Rightarrow> string \<Rightarrow> string" where
  "join_authors [] citation = citation"
| "join_authors (author # rest) citation = join_authors rest (citation @ author @ '', '')"

definition format_ieee :: "source_reference \<Rightarrow> string" where
  "format_ieee r =
     (if citation_number r \<noteq> None \<and> citation_number r \<noteq> Some 0 then
        ''['' @ str_int (case citation_number r of None \<Rightarrow> 0 | Some n \<Rightarrow> n) @ ''] ''
      else
        let citation = [];
            citation =
              (case authors r of
                 [] \<Rightarrow> citation
               | [a] \<Rightarrow> citation @ a @ '', ''
               | _ \<Rightarrow> join_authors (butlast (authors r)) citation @
                       ''and '' @ last (authors r) @ '', '');
            citation = citation @ [CHR 0x22] @ ref_title r @ '','' @ [CHR 0x22] @ '' ''
        in if ref_source_type r = ''journal'' \<and> truthy (journal r) then
             citation @ text_of (journal r) @ date_suffix r
           else if ref_source_type r = ''arxiv'' then
             citation @ ''arXiv preprint arXiv:'' @ last_segment (ref_url r)
           else if ref_source_type r = ''book'' \<and> truthy (publisher r) then
             citation @ text_of (publisher r) @ date_suffix r
           else citation @ ''Retrieved from '' @ ref_url r @ date_suffix r)"

definition format_citation :: "string \<Rightarrow> source_reference \<Rightarrow> string" where
  "format_citation st r =
     (if st = ''apa'' then format_apa r
      else if st = ''mla'' then format_mla r
      else if st = ''chicago'' then format_chicago r
      else if st = ''harvard'' then format_harvard r
      else if st = ''ieee'' then format_ieee r
      else format_apa r)"

text \<open>
  \<open>generate_references_section\<close>. \<open>sorted\<close> is a stable sort; its key is the citation
  number, or 999 for a reference without one.
\<close>

definition sort_key_of :: "source_reference \<Rightarrow> int" where
  "sort_key_of r = (case citation_number r of None \<Rightarrow> 999 | Some n \<Rightarrow> n)"

definition sorted_refs :: "citation \<Rightarrow> source_reference list" where
  "sorted_refs c = sort_key sort_key_of (map snd (references c))"




text \<open>
  What the claim says of the order: no reference without a citation number stands before
  one that has a number.
\<close>

definition numbered :: "source_reference \<Rightarrow> bool" where
  "numbered r = (citation_number r \<noteq> None)"

definition missing_last :: "source_reference list \<Rightarrow> bool" where
  "missing_last rs =
     (\<forall>i j. i < j \<and> j < length rs \<and> \<not> numbered (rs ! i) \<longrightarrow> \<not> numbered (rs ! j))"



section \<open>URLTracker\<close>

text \<open>
  The tracking dictionary of \<open>URLTracker\<close>. The methods also append lines to a log buffer
  when one is given; the lines are not modelled, since nothing reads them back. Whether a
  buffer is given is an input where it decides the control flow.
\<close>

record url_tracking =
  total_urls_scraped :: int
  total_urls_tracked :: int
  wikipedia_count :: int
  arxiv_count :: int
  academic_pdf_count :: int
  news_count :: int
  stats_sources_count :: int
  doi_papers_count :: int
  web_page_count :: int
  failed_scrapes :: int
  arxiv_papers_count :: int
  url_sources :: "(string \<times> int) list"
  last_updated :: real

text \<open>\<open>reset_tracking\<close>; the argument is the reading of \<open>time.time()\<close>.\<close>

definition reset_tracking :: "real \<Rightarrow> url_tracking" where
  "reset_tracking now =
     \<lparr> total_urls_scraped = 0, total_urls_tracked = 0, wikipedia_count = 0, arxiv_count = 0,
       academic_pdf_count = 0, news_count = 0, stats_sources_count = 0, doi_papers_count = 0,
       web_page_count = 0, failed_scrapes = 0, arxiv_papers_count = 0, url_sources = [],
       last_updated = now \<rparr>"

definition news_domains :: "string list" where
  "news_domains = [''news'', ''cnbc'', ''bbc'', ''reuters'', ''cnn'', ''nytimes'',
     ''washingtonpost'', ''guardian'', ''aljazeera'', ''npr'']"

definition stat_domains :: "string list" where
  "stat_domains = [''statista'', ''worldbank'', ''data.gov'', ''ourworldindata'',
     ''census.gov'', ''bls.gov'', ''oecd.org'']"

definition academic_domains :: "string list" where
  "academic_domains = [''edu'', ''ac.uk'', ''researchgate'', ''springer'', ''sciencedirect'',
     ''jstor'', ''ieee'', ''mdpi'', ''ncbi'', ''scielo'', ''ssrn'']"

text \<open>
  \<open>_classify_and_count_url(url, buffer)\<close>: seven independent tests on the lowercased url,
  each of which bumps its counter and sets \<open>tracked\<close>; then the fallback on \<open>not tracked\<close>.
  The tracking dictionary is returned updated.
\<close>

definition classify_and_count_url :: "url_tracking \<Rightarrow> string \<Rightarrow> url_tracking" where
  "classify_and_count_url t0 url =
     (let url_lower = lower url;
          tracked = False;
          (t, tracked) =
            (if contains url_lower ''wikipedia.org''
             then (t0\<lparr>wikipedia_count := wikipedia_count t0 + 1\<rparr>, True)
             else (t0, tracked));
          (t, tracked) =
            (if list_ex (\<lambda>news_domain. contains url_lower news_domain) news_domains
             then (t\<lparr>news_count := news_count t + 1\<rparr>, True)
             else (t, tracked));
          (t, tracked) =
            (if contains url_lower ''arxiv.org''
             then (t\<lparr>arxiv_count := arxiv_count t + 1\<rparr>, True)
             else (t, tracked));
          (t, tracked) =
            (if list_ex (\<lambda>stat_domain. contains url_lower stat_domain) stat_domains
             then (t\<lparr>stats_sources_count := stats_sources_count t + 1\<rparr>, True)
             else (t, tracked));
          (t, tracked) =
            (if endswith url_lower ''.pdf''
             then (t\<lparr>academic_pdf_count := academic_pdf_count t + 1\<rparr>, True)
             else (t, tracked));
          (t, tracked) =
            (if contains url_lower ''doi.org'' \<or> contains url_lower ''/doi/''
             then (t\<lparr>doi_papers_count := doi_papers_count t + 1\<rparr>, True)
             else (t, tracked));
          (t, tracked) =
            (if list_ex (\<lambda>academic_domain. contains url_lower academic_domain) academic_domains
             then (t\<lparr>academic_pdf_count := academic_pdf_count t + 1\<rparr>, True)
             else (t, tracked))
      in if \<not> tracked then t\<lparr>web_page_count := web_page_count t + 1\<rparr> else t)"

text \<open>
  The category rules as the claim lists them, each a test on the lowercased url: wikipedia
  domain, news domain list, arxiv.org, statistics domain list, \<open>.pdf\<close> suffix, DOI pattern,
  academic domain list.
\<close>

definition category_rules :: "(string \<Rightarrow> bool) list" where
  "category_rules =
     [\<lambda>u. contains u ''wikipedia.org'',
      \<lambda>u. list_ex (contains u) news_domains,
      \<lambda>u. contains u ''arxiv.org'',
      \<lambda>u. list_ex (contains u) stat_domains,
      \<lambda>u. endswith u ''.pdf'',
      \<lambda>u. contains u ''doi.org'' \<or> contains u ''/doi/'',
      \<lambda>u. list_ex (contains u) academic_domains]"

definition in_named_category :: "string \<Rightarrow> bool" where
  "in_named_category url = list_ex (\<lambda>rule. rule (lower url)) category_rules"

text \<open>
  \<open>tracked_scrape_url\<close>, the wrapper that \<open>setup_tracking_for_scraper\<close> installs around the
  scraper's own method. What the program does not decide is an input: \<open>netloc url\<close> is the
  value of \<open>urlparse(url).netloc\<close> (\<open>None\<close> when \<open>urlparse\<close> raises, which leaves the variable
  \<open>domain\<close> unbound), \<open>has_buffer\<close> tells whether a buffer is given, \<open>outcome\<close> is what the
  wrapped method did (returned a value, or raised), and \<open>save_raises\<close> tells whether
  \<open>save_callback()\<close> raises. The result is the returned content (\<open>None\<close> for \<open>return None\<close>)
  and the tracking dictionary. Reading the unbound \<open>domain\<close> raises inside the \<open>try\<close>, like
  any other exception there.
\<close>

datatype scrape_outcome = Returned "string option" | Raised

text \<open>\<open>url_sources[domain] = url_sources.get(domain, 0) + 1\<close>\<close>

definition bump_domain :: "(string \<times> int) list \<Rightarrow> string \<Rightarrow> (string \<times> int) list" where
  "bump_domain sources domain =
     AList.update domain ((case map_of sources domain of None \<Rightarrow> 0 | Some n \<Rightarrow> n) + 1) sources"

definition tracked_scrape_url ::
    "(string \<Rightarrow> string option) \<Rightarrow> bool \<Rightarrow> url_tracking \<Rightarrow> string \<Rightarrow> scrape_outcome \<Rightarrow> bool \<Rightarrow>
     string option \<times> url_tracking" where
  "tracked_scrape_url netloc has_buffer t0 url outcome save_raises =
     (let t = t0\<lparr>total_urls_tracked := total_urls_tracked t0 + 1\<rparr>;
          t = t\<lparr>total_urls_scraped := total_urls_scraped t + 1\<rparr>;
          domain = netloc url;
          t = (case domain of
                 None \<Rightarrow> t
               | Some d \<Rightarrow> t\<lparr>url_sources := bump_domain (url_sources t) d\<rparr>)
      in case outcome of
           Raised \<Rightarrow> (None, t\<lparr>failed_scrapes := failed_scrapes t + 1\<rparr>)
         | Returned content \<Rightarrow>
             if truthy content then
               let t = classify_and_count_url t url
               in if save_raises \<or> (has_buffer \<and> domain = None)
                  then (None, t\<lparr>failed_scrapes := failed_scrapes t + 1\<rparr>)
                  else (content, t)
             else (None, t\<lparr>failed_scrapes := failed_scrapes t + 1\<rparr>))"

text \<open>
  A run of the wrapper over a sequence of calls, each given by its url, the outcome of
  the wrapped method and whether saving raises.
\<close>

fun scrape_all ::
    "(string \<Rightarrow> string option) \<Rightarrow> bool \<Rightarrow> url_tracking \<Rightarrow> (string \<times> scrape_outcome \<times> bool) list \<Rightarrow>
     url_tracking" where
  "scrape_all netloc has_buffer t [] = t"
| "scrape_all netloc has_buffer t ((url, outcome, save_raises) # calls) =
     scrape_all netloc has_buffer
       (snd (tracked_scrape_url netloc has_buffer t url outcome save_raises)) calls"

text \<open>A call scraped its url successfully when the wrapped method returned truthy content.\<close>

fun scraped_ok :: "string \<times> scrape_outcome \<times> bool \<Rightarrow> bool" where
  "scraped_ok (url, Returned content, save_raises) = truthy content"
| "scraped_ok (url, Raised, save_raises) = False"

section \<open>ArticleStorage\<close>

text \<open>
  The storage directory holds one text file per article, named by the article id, and the
  index file \<open>article_index.json\<close>. Both are modelled as what they hold: the files as a
  dictionary from article id to content, the index as the dictionary that \<open>_load_index\<close>
  reads and \<open>_save_index\<close> writes. Reading and writing the files is taken to succeed.
  Metadata values are JSON scalars.
\<close>

datatype jvalue = JNull | JBool bool | JNum int | JStr string

record article =
  article_id :: string
  article_url :: string
  article_title :: string
  article_source_type :: string
  timestamp :: real
  date_added :: string
  metadata :: "(string \<times> jvalue) list"

record article_index =
  articles :: "(string \<times> article) list"
  index_last_updated :: string

record article_storage =
  content_files :: "(string \<times> string) list"
  index_file :: article_index

text \<open>\<open>ArticleStorage.__init__\<close> on an empty directory; \<open>now\<close> is \<open>datetime.now().isoformat()\<close>.\<close>

definition article_storage_init :: "string \<Rightarrow> article_storage" where
  "article_storage_init now =
     \<lparr> content_files = [], index_file = \<lparr> articles = [], index_last_updated = now \<rparr> \<rparr>"

text \<open>
  \<open>_hash_url\<close> is \<open>hashlib.md5(url.encode()).hexdigest()\<close>; the library's digest is the
  parameter \<open>md5\<close>.
\<close>

definition hash_url :: "(string \<Rightarrow> string) \<Rightarrow> string \<Rightarrow> string" where
  "hash_url md5 url = md5 url"

text \<open>
  \<open>store_article\<close>. The clock readings are inputs: \<open>now\<close> is \<open>time.time()\<close>, and \<open>iso1\<close>, \<open>iso2\<close>
  are the two values of \<open>datetime.now().isoformat()\<close>. The argument \<open>metadata\<close> is \<open>None\<close> or a
  dictionary (\<open>metadata or {}\<close>).
\<close>

definition store_article ::
    "(string \<Rightarrow> string) \<Rightarrow> article_storage \<Rightarrow> string \<Rightarrow> string \<Rightarrow> string \<Rightarrow> string \<Rightarrow>
     (string \<times> jvalue) list option \<Rightarrow> real \<Rightarrow> string \<Rightarrow> string \<Rightarrow> string \<times> article_storage" where
  "store_article md5 st url title content source_type metadata' now iso1 iso2 =
     (let aid = hash_url md5 url;
          article_data =
            \<lparr> article_id = aid, article_url = url, article_title = title,
              article_source_type = source_type, timestamp = now, date_added = iso1,
              metadata = (case metadata' of None \<Rightarrow> [] | Some m \<Rightarrow> m) \<rparr>;
          st = st\<lparr>content_files := AList.update aid content (content_files st)\<rparr>;
          index = index_file st;
          index = index\<lparr>articles := AList.update aid article_data (articles index)\<rparr>;
          index = index\<lparr>index_last_updated := iso2\<rparr>
      in (aid, st\<lparr>index_file := index\<rparr>))"

text \<open>
  \<open>add_summary_to_article\<close>; \<open>now\<close> is \<open>datetime.now().isoformat()\<close>. The index is saved only
  on the path that returns \<open>True\<close>.
\<close>

definition add_summary_to_article ::
    "article_storage \<Rightarrow> string \<Rightarrow> string \<Rightarrow> string \<Rightarrow> bool \<times> article_storage" where
  "add_summary_to_article st aid summary now =
     (let index = index_file st
      in case map_of (articles index) aid of
           None \<Rightarrow> (False, st)
         | Some a \<Rightarrow>
             let a = a\<lparr>metadata := AList.update ''summary'' (JStr summary) (metadata a)\<rparr>;
                 a = a\<lparr>metadata := AList.update ''summary_date'' (JStr now) (metadata a)\<rparr>;
                 index = index\<lparr>articles := AList.update aid a (articles index)\<rparr>
             in (True, st\<lparr>index_file := index\<rparr>))"

text \<open>
  An index as the storage produces it: its keys are distinct and every record stands
  under the hash of its own url.
\<close>

definition index_wf :: "(string \<Rightarrow> string) \<Rightarrow> article_storage \<Rightarrow> bool" where
  "index_wf md5 st =
     (distinct (map fst (articles (index_file st))) \<and>
      (\<forall>kv \<in> set (articles (index_file st)). fst kv = hash_url md5 (article_url (snd kv))))"

text \<open>The records of the index that are about a url.\<close>

definition records_of_url :: "article_storage \<Rightarrow> string \<Rightarrow> article list" where
  "records_of_url st url = filter (\<lambda>a. article_url a = url) (map snd (articles (index_file st)))"

text \<open>A stand-in for the digest, for concrete runs.\<close>

definition example_md5 :: "string \<Rightarrow> string" where
  "example_md5 u = ''h:'' @ u"

section \<open>RateLimitHandler\<close>

text \<open>
  Time stamps are Python floats read from \<open>time.time()\<close>; they are modelled as real numbers
  and the clock readings are inputs. The two tables are dictionaries from service name to
  number.
\<close>

record rate_limit_handler =
  max_retries :: int
  retry_delay :: int
  service_last_call :: "(string \<times> real) list"
  service_min_interval :: "(string \<times> real) list"


text \<open>\<open>d.get(service, 0)\<close>\<close>

definition get_or_zero :: "(string \<times> real) list \<Rightarrow> string \<Rightarrow> real" where
  "get_or_zero d service = (case map_of d service of None \<Rightarrow> 0 | Some v \<Rightarrow> v)"

text \<open>\<open>should_wait\<close>; \<open>now\<close> is the reading of \<open>time.time()\<close>.\<close>

definition should_wait :: "rate_limit_handler \<Rightarrow> string \<Rightarrow> real \<Rightarrow> real" where
  "should_wait rl service now =
     (let last_call = get_or_zero (service_last_call rl) service;
          min_interval = get_or_zero (service_min_interval rl) service
      in if now - last_call < min_interval then min_interval - (now - last_call) else 0)"

text \<open>\<open>update_last_call\<close>; \<open>now\<close> is the reading of \<open>time.time()\<close>.\<close>

definition update_last_call :: "rate_limit_handler \<Rightarrow> string \<Rightarrow> real \<Rightarrow> rate_limit_handler" where
  "update_last_call rl service now =
     rl\<lparr>service_last_call := AList.update service now (service_last_call rl)\<rparr>"

text \<open>
  \<open>wait_if_needed\<close>. The call reads the clock in \<open>should_wait\<close> (\<open>now\<close>), awaits
  \<open>asyncio.sleep(wait_time)\<close> when \<open>wait_time\<close> is positive, and reads the clock again in
  \<open>update_last_call\<close> (\<open>stamp\<close>). Both readings are inputs: how far the clock has moved between
  them is not decided by the program, and the second reading is not compared with anything.
  The result is the sleep that was requested (0 when none) and the handler.
\<close>

definition wait_if_needed ::
    "rate_limit_handler \<Rightarrow> string \<Rightarrow> real \<Rightarrow> real \<Rightarrow> real \<times> rate_limit_handler" where
  "wait_if_needed rl service now stamp =
     (let wait_time = should_wait rl service now;
          slept = (if wait_time > 0 then wait_time else 0)
      in (slept, update_last_call rl service stamp))"



section \<open>The pipeline's top-level exception handler\<close>

text \<open>
  A raised Python exception, as far as the handlers read it: the name of its class, whether
  it is an instance of \<open>Exception\<close> (a \<open>KeyboardInterrupt\<close>, a \<open>SystemExit\<close> or a cancellation is
  not), the text of \<open>str(e)\<close>, and the text that \<open>traceback.format_exception\<close> gives for it.
\<close>

record exc =
  exc_type :: string
  is_exception :: bool
  exc_str :: string
  exc_traceback :: string

text \<open>
  The session record \<open>research_data\<close>, as far as the handler and the claim read it: the
  topic, the status, and the error log under the key \<open>errors\<close>, which is absent until the
  first error is logged. The other keys are left out.
\<close>

record error_entry =
  err_timestamp :: string
  err_message :: string
  err_error :: string
  err_traceback :: string

record research_data =
  rd_topic :: string
  rd_status :: string
  rd_errors :: "error_entry list option"

text \<open>\<open>ResearchDataManager.load_research_data\<close> when no file exists yet.\<close>

definition load_research_data :: research_data where
  "load_research_data = \<lparr> rd_topic = [], rd_status = ''initialized'', rd_errors = None \<rparr>"

text \<open>
  \<open>log_exception(e, message, buffer, research_data, save_callback)\<close>. Writing to the logger
  and to the buffer is not modelled. \<open>research_data\<close> and \<open>save_callback\<close> may be \<open>None\<close>. The
  callback is \<open>save_research_data\<close>, which writes the session file: it may raise, and
  \<open>save_callback rd\<close> is the exception it raises, if any. \<open>now\<close> is
  \<open>datetime.now().isoformat()\<close>. The result is the exception that leaves the function, if
  any, and the session record. The list under \<open>errors\<close> is created when the key is absent
  and the entry is appended to it.
\<close>

definition log_exception ::
    "exc \<Rightarrow> string \<Rightarrow> research_data option \<Rightarrow> (research_data \<Rightarrow> exc option) option \<Rightarrow> string \<Rightarrow>
     exc option \<times> research_data option" where
  "log_exception e message research_data save_callback now =
     (let error_details = exc_traceback e
      in case research_data of
           None \<Rightarrow> (None, None)
         | Some rd \<Rightarrow>
             let errors = (case rd_errors rd of None \<Rightarrow> [] | Some es \<Rightarrow> es);
                 rd = rd\<lparr>rd_errors :=
                        Some (errors @
                          [\<lparr> err_timestamp = now, err_message = message,
                             err_error = exc_str e, err_traceback = error_details \<rparr>])\<rparr>
             in case save_callback of
                  None \<Rightarrow> (None, Some rd)
                | Some save \<Rightarrow> (save rd, Some rd))"

text \<open>
  The body of the \<open>try\<close> block of \<open>generate_research_paper\<close> is a sequence of steps. What the
  calls to the research units, the generators and the renderer do is not decided by the
  pipeline, so a step is any function that updates the session record and either completes
  or raises. The steps run in order until one raises.
\<close>

type_synonym step = "research_data \<Rightarrow> exc option \<times> research_data"

fun run_steps :: "step list \<Rightarrow> research_data \<Rightarrow> exc option \<times> research_data" where
  "run_steps [] rd = (None, rd)"
| "run_steps (s # ss) rd =
     (case s rd of
        (Some e, rd') \<Rightarrow> (Some e, rd')
      | (None, rd') \<Rightarrow> run_steps ss rd')"

text \<open>
  The steps of the block that the pipeline itself decides. At the start:
  \<open>research_data["topic"] = topic; research_data["status"] = "researching"\<close>, then
  \<open>save_research_data()\<close>. At the end, when the PDF conversion gave a file:
  \<open>research_data["status"] = "completed"\<close>, then \<open>save_research_data()\<close>. Saving writes the
  session file and may raise: \<open>save rd\<close> is the exception it raises, if any.
\<close>

definition begin_research :: "string \<Rightarrow> step" where
  "begin_research topic rd = (None, rd\<lparr>rd_topic := topic, rd_status := ''researching''\<rparr>)"

definition save_step :: "(research_data \<Rightarrow> exc option) \<Rightarrow> step" where
  "save_step save rd = (save rd, rd)"

definition complete_research :: "(research_data \<Rightarrow> exc option) \<Rightarrow> string option \<Rightarrow> step" where
  "complete_research save pdf_file rd =
     (if truthy pdf_file then
        (let rd = rd\<lparr>rd_status := ''completed''\<rparr> in (save rd, rd))
      else (None, rd))"

text \<open>
  The whole block in the order of the source: the preparation (the resets of the URL
  tracking, the caches and the progress), the start of the session, the ten research steps,
  and the completion. The preparation and the research steps are parameters, and so is
  \<open>pdf_file\<close>, the value that the conversion step returns.
\<close>

definition try_block ::
    "(research_data \<Rightarrow> exc option) \<Rightarrow> step list \<Rightarrow> string \<Rightarrow> step list \<Rightarrow> string option \<Rightarrow> step list" where
  "try_block save preparation topic research pdf_file =
     preparation @ [begin_research topic, save_step save] @ research @
     [complete_research save pdf_file]"

text \<open>
  \<open>generate_research_paper\<close>: the \<open>try\<close> block, which returns \<open>markdown_file\<close> when no step
  raises, and the handler \<open>except Exception as e\<close>, which calls \<open>log_exception\<close> and returns the
  empty string. An exception that is not an instance of \<open>Exception\<close>, or one raised inside
  the handler, leaves the function.
\<close>

datatype outcome = Returns string | Propagates exc

definition generate_research_paper ::
    "(research_data \<Rightarrow> exc option) \<Rightarrow> step list \<Rightarrow> string \<Rightarrow> step list \<Rightarrow> string option \<Rightarrow>
     string \<Rightarrow> string \<Rightarrow> research_data \<Rightarrow> outcome \<times> research_data" where
  "generate_research_paper save_research_data preparation topic research pdf_file
       markdown_file now rd =
     (case run_steps (try_block save_research_data preparation topic research pdf_file) rd of
        (None, rd') \<Rightarrow> (Returns markdown_file, rd')
      | (Some e, rd') \<Rightarrow>
          if is_exception e then
            (case log_exception e ''Error in research paper generation'' (Some rd')
                    (Some save_research_data) now of
               (None, rd'') \<Rightarrow> (Returns [], case rd'' of None \<Rightarrow> rd' | Some r \<Rightarrow> r)
             | (Some e', rd'') \<Rightarrow> (Propagates e', case rd'' of None \<Rightarrow> rd' | Some r \<Rightarrow> r))
          else (Propagates e, rd'))"

text \<open>
  A research step that raises an exception, and a save that never raises, for concrete
  runs.
\<close>

definition failing_step :: step where
  "failing_step rd =
     (Some \<lparr> exc_type = ''ValueError'', is_exception = True, exc_str = ''boom'',
             exc_traceback = ''Traceback: boom'' \<rparr>, rd)"

definition save_ok :: "research_data \<Rightarrow> exc option" where
  "save_ok rd = None"

section \<open>The web layer's research thread\<close>

text \<open>
  \<open>run_research_async\<close> in \<open>app.py\<close> keeps an entry of its own per session in
  \<open>active_sessions\<close>; of that entry the status, the error text and the markdown fields are
  modelled. The function awaits \<open>generate_research_paper\<close>, whose outcome is an input here,
  and then opens the returned path. \<open>files\<close> is the file system as it is when the function
  reads: the content of a path, or \<open>None\<close> when opening or reading it raises; the empty path
  names no file. \<open>open_error path\<close> is the text of the exception raised for a path.
  \<open>error_report\<close> is the path of the report written on the \<open>TypeError\<close> branch, in a directory
  named after the session that this function does not create; \<open>write_error\<close> is the text of the
  exception that writing the report raises, or \<open>None\<close> when it is written.
\<close>

record web_session =
  ws_status :: string
  ws_error :: "string option"
  ws_markdown_content :: string
  ws_markdown_file :: "string option"

definition open_read :: "(string \<Rightarrow> string option) \<Rightarrow> string \<Rightarrow> string option" where
  "open_read files path = (if path = [] then None else files path)"

text \<open>
  The result is the session entry and the exception that leaves the function, if any. On
  the \<open>TypeError\<close> branch an exception raised while writing the report (an \<open>OSError\<close> when
  the directory is missing) is an instance of \<open>Exception\<close> and is caught by the outer handler,
  which reads only its text; after a successful write the report is opened like a returned
  path.
\<close>

definition run_research_async ::
    "(string \<Rightarrow> string option) \<Rightarrow> (string \<Rightarrow> string) \<Rightarrow> string option \<Rightarrow> string \<Rightarrow>
     outcome \<Rightarrow> web_session \<Rightarrow> web_session \<times> exc option" where
  "run_research_async files open_error write_error error_report paper ws0 =
     (let ws = ws0\<lparr>ws_status := ''researching''\<rparr>;
          opened =
            (case paper of
               Returns markdown_file \<Rightarrow> Inr (markdown_file, open_read files markdown_file)
             | Propagates e \<Rightarrow>
                 if exc_type e = ''TypeError'' \<and>
                    contains (exc_str e) ''can't be used in 'await' expression''
                 then (case write_error of
                         Some msg \<Rightarrow>
                           Inl \<lparr> exc_type = ''OSError'', is_exception = True, exc_str = msg,
                                 exc_traceback = [] \<rparr>
                       | None \<Rightarrow> Inr (error_report, open_read files error_report))
                 else Inl e)
      in case opened of
           Inl e \<Rightarrow>
             if is_exception e
             then (ws\<lparr>ws_status := ''error'', ws_error := Some (exc_str e)\<rparr>, None)
             else (ws, Some e)
         | Inr (markdown_file, None) \<Rightarrow>
             (ws\<lparr>ws_status := ''error'', ws_error := Some (open_error markdown_file)\<rparr>, None)
         | Inr (markdown_file, Some markdown_content) \<Rightarrow>
             (ws\<lparr>ws_markdown_content := markdown_content,
                 ws_markdown_file := Some markdown_file, ws_status := ''completed''\<rparr>, None))"

section \<open>ContentOptimizer.is_redundant\<close>

text \<open>
  The character classes of the two regular expressions, on the code points below 256.
  \<open>\s\<close> matches the characters for which \<open>str.isspace\<close> holds: tab, line feed, vertical
  tab, form feed, carriage return, the four separators 0x1C to 0x1F, the space, the next-line
  character 0x85 and the no-break space 0xA0. \<open>\w\<close> matches the underscore and the
  characters for which \<open>str.isalnum\<close> holds: the letters, the digits, and in the supplement
  also the two ordinal indicators, the micro sign, the superscripts 1 to 3 and the three
  fractions.
\<close>

definition is_space :: "char \<Rightarrow> bool" where
  "is_space c =
     (c \<in> set [CHR 0x09, CHR 0x0A, CHR 0x0B, CHR 0x0C, CHR 0x0D,
               CHR 0x1C, CHR 0x1D, CHR 0x1E, CHR 0x1F, CHR 0x20, CHR 0x85, CHR 0xA0])"

definition is_word :: "char \<Rightarrow> bool" where
  "is_word c =
     (c \<in> set (lower_letters @ upper_letters @ ''0123456789_'' @
               [CHR 0xAA, CHR 0xB2, CHR 0xB3, CHR 0xB5, CHR 0xB9, CHR 0xBA, CHR 0xBC, CHR 0xBD,
                CHR 0xBE, CHR 0xDF, CHR 0xFF]))"

text \<open>
  \<open>re.sub(r'\s+', ' ', s)\<close>: every maximal run of whitespace becomes one space. The flag
  tells whether the character before was whitespace, that is, whether a run is under way.
\<close>

fun sub_spaces :: "bool \<Rightarrow> string \<Rightarrow> string" where
  "sub_spaces in_run [] = []"
| "sub_spaces in_run (c # cs) =
     (if is_space c then (if in_run then sub_spaces True cs else CHR 0x20 # sub_spaces True cs)
      else c # sub_spaces False cs)"

text \<open>\<open>re.sub(r'[^\w\s]', '', s)\<close>: every character that is neither is removed.\<close>

definition sub_punct :: "string \<Rightarrow> string" where
  "sub_punct s = filter (\<lambda>c. is_word c \<or> is_space c) s"

text \<open>\<open>s.strip()\<close>\<close>

definition strip :: "string \<Rightarrow> string" where
  "strip s = rev (dropWhile is_space (rev (dropWhile is_space s)))"

definition normalize_content :: "string \<Rightarrow> string" where
  "normalize_content content =
     (let normalized = lower content;
          normalized = sub_spaces False normalized;
          normalized = sub_punct normalized
      in strip normalized)"

text \<open>
  \<open>is_redundant\<close>. The built-in \<open>hash\<close> is a parameter; the set \<open>processed_content_hashes\<close> is
  passed in and returned.
\<close>

definition is_redundant :: "(string \<Rightarrow> int) \<Rightarrow> int set \<Rightarrow> string \<Rightarrow> bool \<times> int set" where
  "is_redundant hash processed_content_hashes content =
     (if content = [] \<or> length content < 50 then (True, processed_content_hashes)
      else
        let content_hash = hash (normalize_content content)
        in if content_hash \<in> processed_content_hashes then (True, processed_content_hashes)
           else (False, insert content_hash processed_content_hashes))"





text \<open>A stand-in for the built-in hash, and texts, for concrete runs.\<close>

definition example_hash :: "string \<Rightarrow> int" where
  "example_hash s = int (length s)"

definition dashed_text :: string where
  "dashed_text = ''The quick brown fox - jumps over the lazy dog again and again''"

definition undashed_text :: string where
  "undashed_text = ''The quick brown fox  jumps over the lazy dog again and again''"



section \<open>Theorems\<close>

subsection \<open>has_sufficient_research\<close>

lemma long_content_chars: "long_content s = (500 \<le> section_chars s)"
  by (cases s rule: long_content.cases) (simp_all add: section_chars_def)

lemma count_content_filter:
  "count_content rs n = n + length (filter (\<lambda>kv. 500 \<le> section_chars (snd kv)) rs)"
  by (induction rs n rule: count_content.induct) (simp_all add: long_content_chars)

text \<open>
  Claim C2. For every snapshot, \<open>has_sufficient_research\<close> is true exactly when all four
  gates hold: at least 3 academic sources (arXiv, DOI and PDF together), at least 2
  statistics sources, at least 3 sections, and at least 3 sections with at least 500
  characters of content.
\<close>

theorem has_sufficient_research_iff:
  "has_sufficient_research d =
     (3 \<le> academic_count d \<and> 2 \<le> statistics_count d \<and> 3 \<le> length (sections_of d) \<and>
      3 \<le> length (long_sections d))"
  by (auto simp: has_sufficient_research_def academic_count_def statistics_count_def
        sections_of_def long_sections_def count_content_filter Let_def
      split: option.splits)

text \<open>The gates at their boundaries: 3 against 2 academic sources, 2 against 1 statistics
  sources, 500 against 499 characters, and a snapshot without academic sources.\<close>

lemma has_sufficient_research_boundaries:
  "has_sufficient_research
     \<lparr> cd_academic_sources = Some three_papers, cd_research_results = Some (three_sections 500) \<rparr> \<and>
   \<not> has_sufficient_research
     \<lparr> cd_academic_sources = Some three_papers, cd_research_results = Some (three_sections 499) \<rparr> \<and>
   \<not> has_sufficient_research
     \<lparr> cd_academic_sources = Some (three_papers\<lparr>academic_pdfs := None\<rparr>),
       cd_research_results = Some (three_sections 500) \<rparr> \<and>
   \<not> has_sufficient_research
     \<lparr> cd_academic_sources = Some (three_papers\<lparr>statistics_sources := Some [''s1'']\<rparr>),
       cd_research_results = Some (three_sections 500) \<rparr> \<and>
   \<not> has_sufficient_research
     \<lparr> cd_academic_sources = (None :: string academic_sources option),
       cd_research_results = Some (three_sections 500) \<rparr>"
  by (simp add: has_sufficient_research_def three_papers_def three_sections_def
        section_of_length_def get_list_def)

subsection \<open>URLTracker\<close>

lemma classify_web_page_count:
  "web_page_count (classify_and_count_url t url) =
     web_page_count t + (if in_named_category url then 0 else 1)"
  by (simp add: classify_and_count_url_def in_named_category_def category_rules_def Let_def)

lemma classify_web_page_unchanged:
  "in_named_category url \<Longrightarrow> web_page_count (classify_and_count_url t url) = web_page_count t"
  by (simp add: classify_web_page_count)

lemma tracked_scrape_web_page_count:
  "web_page_count (snd (tracked_scrape_url netloc b t url outcome sr)) =
     web_page_count t +
       (if scraped_ok (url, outcome, sr) \<and> \<not> in_named_category url then 1 else 0)"
  by (cases outcome)
     (simp_all add: tracked_scrape_url_def Let_def classify_web_page_count split: option.splits)

lemma scrape_all_web_page_count:
  "web_page_count (scrape_all netloc b t calls) =
     web_page_count t +
       int (length (filter (\<lambda>c. scraped_ok c \<and> \<not> in_named_category (fst c)) calls))"
  by (induction netloc b t calls rule: scrape_all.induct)
     (simp_all add: tracked_scrape_web_page_count)

text \<open>
  Claim C9. The classifier adds exactly 1 to \<open>web_page_count\<close> when no category rule matches
  the lowercased url and leaves it unchanged when at least one rule matches; so after any
  sequence of scrape calls since the reset, \<open>web_page_count\<close> is the number of successful
  scrapes whose url fell into no named category.
\<close>

theorem web_page_count_counts_uncategorised:
  "web_page_count (classify_and_count_url t url) =
     (if in_named_category url then web_page_count t else web_page_count t + 1) \<and>
   web_page_count (scrape_all netloc b (reset_tracking now) calls) =
     int (length (filter (\<lambda>c. scraped_ok c \<and> \<not> in_named_category (fst c)) calls))"
  by (simp add: classify_web_page_count scrape_all_web_page_count reset_tracking_def)

text \<open>
  The classifier on four urls: no category; Wikipedia; and a url that bumps the academic
  counter twice, by its suffix and by its domain.
\<close>

lemma classify_examples:
  "web_page_count (classify_and_count_url (reset_tracking 0) ''https://Example.com/page'') = 1 \<and>
   web_page_count (classify_and_count_url (reset_tracking 0) ''https://en.Wikipedia.org/wiki/X'') = 0 \<and>
   wikipedia_count (classify_and_count_url (reset_tracking 0) ''https://en.Wikipedia.org/wiki/X'') = 1 \<and>
   academic_pdf_count (classify_and_count_url (reset_tracking 0) ''http://mit.edu/paper.PDF'') = 2"
  by (simp add: classify_and_count_url_def reset_tracking_def lower_def lower_char_def
        upper_letters_def lower_letters_def news_domains_def stat_domains_def
        academic_domains_def endswith_def Let_def)

subsection \<open>Citation.add_reference\<close>

lemma update_absent: "map_of al k = None \<Longrightarrow> AList.update k v al = al @ [(k, v)]"
  by (induction al) (auto split: if_splits)

lemma add_reference_present:
  "map_of (references c) (ref_url r) \<noteq> None \<Longrightarrow> add_reference c r = (ref_id r, c)"
  by (auto simp: add_reference_def)

lemma add_reference_absent:
  "map_of (references c) (ref_url r) = None \<Longrightarrow>
   add_reference c r =
     (ref_id r,
      c\<lparr>citation_counter := citation_counter c + 1,
        references := references c @ [(ref_url r, r\<lparr>citation_number := Some (citation_counter c)\<rparr>)],
        reference_map := AList.update (ref_id r) (ref_url r) (reference_map c)\<rparr>)"
  by (simp add: add_reference_def Let_def update_absent)

lemma add_reference_keeps:
  "map_of (references c) u = Some x \<Longrightarrow> map_of (references (snd (add_reference c r))) u = Some x"
  by (cases "map_of (references c) (ref_url r) = None")
     (auto simp: add_reference_absent add_reference_present)

lemma add_references_keeps:
  "map_of (references c) u = Some x \<Longrightarrow> map_of (references (add_references c rs)) u = Some x"
  by (induction c rs rule: add_references.induct) (simp_all add: add_reference_keeps)

lemma consecutive_init: "consecutive (citation_init st)"
  by (simp add: consecutive_def citation_init_def)

lemma consecutive_add: "consecutive c \<Longrightarrow> consecutive (snd (add_reference c r))"
  by (cases "map_of (references c) (ref_url r) = None")
     (auto simp: add_reference_absent add_reference_present consecutive_def upto_rec2)

lemma consecutive_adds: "consecutive c \<Longrightarrow> consecutive (add_references c rs)"
  by (induction c rs rule: add_references.induct) (simp_all add: consecutive_add)

text \<open>
  Claim C3. The first \<open>add_reference\<close> of a reference with a new url returns its id, stores the
  reference with the citation number \<open>citation_counter\<close> and advances the counter by one,
  so that the registry grows by one entry. After any further sequence of adds, the stored
  reference and its citation number are still the same, and one more add of a reference with
  that url leaves the whole registry (its size, entries and counter) unchanged. In a registry
  built by \<open>add_reference\<close> from the empty one the counter is one more than the number of
  entries and exceeds every number given so far, so the number given is the next one.
\<close>

theorem add_reference_idempotent_per_url:
  assumes new: "map_of (references c) (ref_url r) = None"
  shows "fst (add_reference c r) = ref_id r \<and>
         citation_counter (snd (add_reference c r)) = citation_counter c + 1 \<and>
         length (references (snd (add_reference c r))) = length (references c) + 1 \<and>
         (\<forall>rs r'. ref_url r' = ref_url r \<longrightarrow>
            map_of (references (add_references (snd (add_reference c r)) rs)) (ref_url r) =
              Some (r\<lparr>citation_number := Some (citation_counter c)\<rparr>) \<and>
            snd (add_reference (add_references (snd (add_reference c r)) rs) r') =
              add_references (snd (add_reference c r)) rs) \<and>
         (\<forall>st rs0. c = add_references (citation_init st) rs0 \<longrightarrow>
            citation_counter c = 1 + int (length (references c)) \<and>
            (\<forall>x \<in> set (references c). \<exists>n. citation_number (snd x) = Some n \<and> 1 \<le> n \<and> n < citation_counter c))"
proof -
  let ?c1 = "snd (add_reference c r)"
  let ?stored = "r\<lparr>citation_number := Some (citation_counter c)\<rparr>"
  have first: "map_of (references ?c1) (ref_url r) = Some ?stored"
    using new by (simp add: add_reference_absent map_add_def)
  have later: "map_of (references (add_references ?c1 rs)) (ref_url r) = Some ?stored" for rs
    using first by (rule add_references_keeps)
  have again: "snd (add_reference (add_references ?c1 rs) r') = add_references ?c1 rs"
    if "ref_url r' = ref_url r" for rs r'
    using later[of rs] that by (simp add: add_reference_present)
  have reach: "citation_counter c = 1 + int (length (references c)) \<and>
      (\<forall>x \<in> set (references c). \<exists>n. citation_number (snd x) = Some n \<and> 1 \<le> n \<and> n < citation_counter c)"
    if "c = add_references (citation_init st) rs0" for st rs0
  proof -
    have cons: "consecutive c"
      using that consecutive_adds[OF consecutive_init] by simp
    then have cnt: "citation_counter c = 1 + int (length (references c))"
      by (simp add: consecutive_def)
    have nums: "map (citation_number \<circ> snd) (references c) = map Some [1 .. int (length (references c))]"
      using cons by (simp add: consecutive_def)
    have "\<exists>n. citation_number (snd x) = Some n \<and> 1 \<le> n \<and> n < citation_counter c"
      if "x \<in> set (references c)" for x
    proof -
      from that have "citation_number (snd x) \<in> set (map (citation_number \<circ> snd) (references c))"
        by force
      then have "citation_number (snd x) \<in> Some ` {1 .. int (length (references c))}"
        by (simp add: nums)
      then show ?thesis using cnt by auto
    qed
    then show ?thesis using cnt by blast
  qed
  have a1: "fst (add_reference c r) = ref_id r"
    using new by (simp add: add_reference_absent)
  have a2: "citation_counter ?c1 = citation_counter c + 1"
    using new by (simp add: add_reference_absent)
  have a3: "length (references ?c1) = length (references c) + 1"
    using new by (simp add: add_reference_absent)
  have a4: "\<forall>rs r'. ref_url r' = ref_url r \<longrightarrow>
      map_of (references (add_references ?c1 rs)) (ref_url r) = Some ?stored \<and>
      snd (add_reference (add_references ?c1 rs) r') = add_references ?c1 rs"
    using later again by blast
  have a5: "\<forall>st rs0. c = add_references (citation_init st) rs0 \<longrightarrow>
      citation_counter c = 1 + int (length (references c)) \<and>
      (\<forall>x \<in> set (references c). \<exists>n. citation_number (snd x) = Some n \<and> 1 \<le> n \<and> n < citation_counter c)"
    using reach by blast
  show ?thesis
    by (rule conjI[OF a1 conjI[OF a2 conjI[OF a3 conjI[OF a4 a5]]]])
qed

theorem add_reference_idempotent_witness:
  "(let r = source_reference_init ''id1'' ''T'' ''http://x'' None NoDate ''web'' None None None;
        r' = source_reference_init ''id2'' ''T2'' ''http://x'' None NoDate ''web'' None None None;
        c = citation_init ''apa'';
        c1 = snd (add_reference c r)
    in map_of (references c) (ref_url r) = None \<and>
       map_of (references c1) ''http://x'' = Some (r\<lparr>citation_number := Some 1\<rparr>) \<and>
       citation_counter c1 = 2 \<and> length (references c1) = 1 \<and>
       snd (add_reference c1 r') = c1)"
proof -
  let ?r = "source_reference_init ''id1'' ''T'' ''http://x'' None NoDate ''web'' None None None"
  let ?r' = "source_reference_init ''id2'' ''T2'' ''http://x'' None NoDate ''web'' None None None"
  let ?c = "citation_init ''apa''"
  have new: "map_of (references ?c) (ref_url ?r) = None"
    by (simp add: citation_init_def)
  have same: "ref_url ?r' = ref_url ?r"
    by (simp add: source_reference_init_def)
  note t = add_reference_idempotent_per_url[OF new]
  have "snd (add_reference (add_references (snd (add_reference ?c ?r)) []) ?r') =
          add_references (snd (add_reference ?c ?r)) []"
    using t same by blast
  moreover have "map_of (references (add_references (snd (add_reference ?c ?r)) [])) (ref_url ?r) =
          Some (?r\<lparr>citation_number := Some (citation_counter ?c)\<rparr>)"
    using t same by blast
  moreover have "citation_counter (snd (add_reference ?c ?r)) = citation_counter ?c + 1"
    using t by blast
  moreover have "length (references (snd (add_reference ?c ?r))) = length (references ?c) + 1"
    using t by blast
  ultimately show ?thesis
    using new by (simp add: Let_def citation_init_def source_reference_init_def)
qed

subsection \<open>SourceReference.calculate_scores\<close>

lemma try_formats_first:
  "try_formats strptime s fmts =
     (case find (\<lambda>fmt. strptime s fmt \<noteq> None) fmts of
        None \<Rightarrow> None
      | Some fmt \<Rightarrow> strptime s fmt)"
  by (induction fmts) (auto split: option.splits)

lemma calculate_scores_quality:
  "quality_score (calculate_scores strptime today r) =
     (relevance_score (calculate_scores strptime today r) +
      recency_score (calculate_scores strptime today r) +
      authority_score (calculate_scores strptime today r)) / 3"
  by (simp add: calculate_scores_def Let_def)

lemma calculate_scores_relevance:
  "relevance_score (calculate_scores strptime today r) = relevance_score r"
  by (simp add: calculate_scores_def Let_def split: option.splits date_field.splits)

lemma calculate_scores_parsed:
  "publication_date r = DateStr s \<Longrightarrow> s \<noteq> [] \<Longrightarrow> try_formats strptime s date_formats = Some d \<Longrightarrow>
   recency_score (calculate_scores strptime today r) = recency_bucket (today - d)"
  by (simp add: calculate_scores_def Let_def recency_bucket_def)

lemma calculate_scores_unparsed:
  "publication_date r = DateStr s \<Longrightarrow> try_formats strptime s date_formats = None \<Longrightarrow>
   recency_score (calculate_scores strptime today r) = recency_score r"
  by (simp add: calculate_scores_def Let_def)

text \<open>
  Claim C7. When the publication date parses, under the first of the five formats (tried in
  their fixed order) that accepts it, the recency score is 0.9 for an age under 365 days,
  0.7 under 3 times 365 days, 0.5 under 5 times 365 days and 0.3 beyond. When no format
  accepts it the recency score is left as it was, which is the 0.5 the constructor sets.
  The quality score is always the mean of the relevance, recency and authority scores of
  the result.
\<close>

theorem calculate_scores_recency_and_quality:
  "(\<forall>s d. publication_date r = DateStr s \<and> s \<noteq> [] \<and>
          (case find (\<lambda>fmt. strptime s fmt \<noteq> None) date_formats of
             None \<Rightarrow> None | Some fmt \<Rightarrow> strptime s fmt) = Some d \<longrightarrow>
      recency_score (calculate_scores strptime today r) =
        (if today - d < 365 then 0.9 else if today - d < 3 * 365 then 0.7
         else if today - d < 5 * 365 then 0.5 else 0.3)) \<and>
   (\<forall>s. publication_date r = DateStr s \<and> (\<forall>fmt \<in> set date_formats. strptime s fmt = None) \<longrightarrow>
      recency_score (calculate_scores strptime today r) = recency_score r) \<and>
   recency_score (source_reference_init uuid t u a p st pb j di) = 0.5 \<and>
   quality_score (calculate_scores strptime today r) =
     (relevance_score (calculate_scores strptime today r) +
      recency_score (calculate_scores strptime today r) +
      authority_score (calculate_scores strptime today r)) / 3"
proof -
  have p1: "recency_score (calculate_scores strptime today r) =
        (if today - d < 365 then 0.9 else if today - d < 3 * 365 then 0.7
         else if today - d < 5 * 365 then 0.5 else 0.3)"
    if "publication_date r = DateStr s" "s \<noteq> []"
       "(case find (\<lambda>fmt. strptime s fmt \<noteq> None) date_formats of
             None \<Rightarrow> None | Some fmt \<Rightarrow> strptime s fmt) = Some d" for s d
    using that calculate_scores_parsed[of r s strptime d today]
    by (simp add: try_formats_first recency_bucket_def)
  have p2: "recency_score (calculate_scores strptime today r) = recency_score r"
    if "publication_date r = DateStr s" "\<forall>fmt \<in> set date_formats. strptime s fmt = None" for s
  proof -
    have "find (\<lambda>fmt. strptime s fmt \<noteq> None) date_formats = None"
      using that(2) by (simp add: find_None_iff)
    then have "try_formats strptime s date_formats = None"
      by (simp add: try_formats_first)
    with that(1) show ?thesis by (rule calculate_scores_unparsed)
  qed
  have p3: "recency_score (source_reference_init uuid t u a p st pb j di) = 0.5"
    by (simp add: source_reference_init_def)
  show ?thesis
    using p1 p2 p3 calculate_scores_quality by blast
qed

theorem calculate_scores_witness:
  "(let strptime = (\<lambda>s fmt. if s = ''2020'' \<and> fmt = ''%Y'' then Some 737425 else None);
        r1 = source_reference_init ''i'' ''T'' ''http://x'' None (DateStr ''2020'') ''web'' None None None;
        r2 = source_reference_init ''i'' ''T'' ''http://x'' None (DateStr ''Unknown'') ''web'' None None None
    in recency_score (calculate_scores strptime 737525 r1) = 0.9 \<and>
       recency_score (calculate_scores strptime 737525 r2) = 0.5 \<and>
       quality_score (calculate_scores strptime 737525 r1) = (0.5 + 0.9 + 0.5) / 3)"
proof -
  let ?sp = "\<lambda>s fmt. if s = ''2020'' \<and> fmt = ''%Y'' then Some (737425::int) else None"
  let ?r1 = "source_reference_init ''i'' ''T'' ''http://x'' None (DateStr ''2020'') ''web'' None None None"
  let ?r2 = "source_reference_init ''i'' ''T'' ''http://x'' None (DateStr ''Unknown'') ''web'' None None None"
  note t1 = calculate_scores_recency_and_quality[of ?r1 ?sp 737525]
  note t2 = calculate_scores_recency_and_quality[of ?r2 ?sp 737525]
  have h1: "publication_date ?r1 = DateStr ''2020'' \<and> ''2020'' \<noteq> [] \<and>
          (case find (\<lambda>fmt. ?sp ''2020'' fmt \<noteq> None) date_formats of
             None \<Rightarrow> None | Some fmt \<Rightarrow> ?sp ''2020'' fmt) = Some 737425"
    by (simp add: source_reference_init_def date_formats_def)
  have h2: "publication_date ?r2 = DateStr ''Unknown'' \<and>
          (\<forall>fmt \<in> set date_formats. ?sp ''Unknown'' fmt = None)"
    by (simp add: source_reference_init_def date_formats_def)
  have a: "recency_score (calculate_scores ?sp 737525 ?r1) = 0.9"
    using t1 h1 by auto
  have b: "recency_score (calculate_scores ?sp 737525 ?r2) = recency_score ?r2"
    using t2 h2 by blast
  have c: "quality_score (calculate_scores ?sp 737525 ?r1) =
     (relevance_score (calculate_scores ?sp 737525 ?r1) + recency_score (calculate_scores ?sp 737525 ?r1) +
      authority_score (calculate_scores ?sp 737525 ?r1)) / 3"
    using t1 by blast
  have d: "relevance_score (calculate_scores ?sp 737525 ?r1) = 0.5"
    by (simp add: calculate_scores_relevance source_reference_init_def)
  have e: "authority_score (calculate_scores ?sp 737525 ?r1) = 0.5"
    by (simp add: calculate_scores_def source_reference_init_def date_formats_def Let_def)
  have f: "recency_score ?r2 = 0.5"
    by (simp add: source_reference_init_def)
  show ?thesis
    unfolding Let_def using a b c d e f by simp
qed

subsection \<open>Citation.generate_references_section\<close>

lemma sorted_refs_sorted: "sorted (map sort_key_of (sorted_refs c))"
  by (simp add: sorted_refs_def)


lemma sorted_refs_same_entries:
  "set (sorted_refs c) = snd ` set (references c) \<and> length (sorted_refs c) = length (references c)"
  by (simp add: sorted_refs_def)


text \<open>
  The key of a reference without a number is the constant 999, so such a reference is
  listed after the numbered ones when their numbers are below 999.
\<close>

lemma sorted_refs_missing_last:
  assumes below: "\<forall>x \<in> set (references c). \<forall>n. citation_number (snd x) = Some n \<longrightarrow> n < 999"
  shows "missing_last (sorted_refs c)"
  unfolding missing_last_def
proof (intro allI impI)
  fix i j
  assume h: "i < j \<and> j < length (sorted_refs c) \<and> \<not> numbered (sorted_refs c ! i)"
  let ?xs = "sorted_refs c"
  have le: "sort_key_of (?xs ! i) \<le> sort_key_of (?xs ! j)"
    using sorted_refs_sorted[of c] h
    by (metis (no_types, lifting) length_map less_imp_le_nat nth_map order_less_trans sorted_nth_mono)
  have ki: "sort_key_of (?xs ! i) = 999"
    using h by (simp add: sort_key_of_def numbered_def)
  show "\<not> numbered (?xs ! j)"
  proof
    assume "numbered (?xs ! j)"
    then obtain n where n: "citation_number (?xs ! j) = Some n"
      by (auto simp: numbered_def)
    have "?xs ! j \<in> snd ` set (references c)"
      using h sorted_refs_same_entries[of c] by (metis nth_mem)
    with below n have "n < 999" by auto
    with n le ki show False by (simp add: sort_key_of_def)
  qed
qed










text \<open>
  The worked example of the APA format: two authors, a date, a web source.
\<close>

lemma format_citation_apa_example:
  "format_citation ''apa''
     (source_reference_init ''id'' ''T'' ''http://x'' (Some [''A'', ''B'']) (DateStr ''2020'')
        ''web'' None None None) =
   ''A & B. (2020). T. Retrieved from http://x''"
  by (simp add: format_citation_def format_apa_def source_reference_init_def date_truthy_def
        date_text_def truthy_def)

subsection \<open>ArticleStorage\<close>

lemma set_update_subset: "set (AList.update k v al) \<subseteq> insert (k, v) (set al)"
  by (induction al) auto

lemma filter_single_key:
  "distinct (map fst al) \<Longrightarrow> \<forall>kv \<in> set al. P (snd kv) \<longrightarrow> fst kv = k \<Longrightarrow>
   map_of al k = Some v \<Longrightarrow> P v \<Longrightarrow> filter P (map snd al) = [v]"
proof (induction al)
  case Nil
  then show ?case by simp
next
  case (Cons x al)
  show ?case
  proof (cases "fst x = k")
    case True
    then have v: "snd x = v" using Cons.prems(3) by (cases x) simp
    have "k \<notin> fst ` set al" using Cons.prems(1) True by auto
    then have "\<forall>y \<in> set al. \<not> P (snd y)" using Cons.prems(2)
      by (metis image_eqI list.set_intros(2))
    then have "filter P (map snd al) = []" by (auto simp: filter_empty_conv)
    then show ?thesis using v Cons.prems(4) by simp
  next
    case False
    then have "\<not> P (snd x)" using Cons.prems(2) by auto
    moreover have "filter P (map snd al) = [v]"
      using Cons.IH Cons.prems False by (cases x) auto
    ultimately show ?thesis by simp
  qed
qed

lemma store_article_result:
  "store_article md5 st url title content source_type meta now iso1 iso2 =
     (hash_url md5 url,
      \<lparr> content_files = AList.update (hash_url md5 url) content (content_files st),
        index_file =
          \<lparr> articles =
              AList.update (hash_url md5 url)
                \<lparr> article_id = hash_url md5 url, article_url = url, article_title = title,
                  article_source_type = source_type, timestamp = now, date_added = iso1,
                  metadata = (case meta of None \<Rightarrow> [] | Some m \<Rightarrow> m) \<rparr>
                (articles (index_file st)),
            index_last_updated = iso2 \<rparr> \<rparr>)"
  by (simp add: store_article_def Let_def)

lemma store_article_wf:
  assumes "index_wf md5 st"
  shows "index_wf md5 (snd (store_article md5 st url title content source_type meta now iso1 iso2))"
proof -
  let ?a = "\<lparr> article_id = hash_url md5 url, article_url = url, article_title = title,
                  article_source_type = source_type, timestamp = now, date_added = iso1,
                  metadata = (case meta of None \<Rightarrow> [] | Some m \<Rightarrow> m) \<rparr>"
  let ?al = "AList.update (hash_url md5 url) ?a (articles (index_file st))"
  have d: "distinct (map fst ?al)"
    using assms by (simp add: index_wf_def distinct_update)
  have "fst kv = hash_url md5 (article_url (snd kv))" if "kv \<in> set ?al" for kv
  proof -
    from that set_update_subset[of "hash_url md5 url" ?a "articles (index_file st)"]
    have "kv = (hash_url md5 url, ?a) \<or> kv \<in> set (articles (index_file st))" by auto
    then show ?thesis using assms by (auto simp: index_wf_def)
  qed
  with d show ?thesis by (simp add: store_article_result index_wf_def)
qed

lemma index_wf_init: "index_wf md5 (article_storage_init now)"
  by (simp add: index_wf_def article_storage_init_def)

lemma length_update_present: "map_of al k = Some v \<Longrightarrow> length (AList.update k w al) = length al"
  by (induction al) (auto split: if_splits)

lemma records_of_url_stored:
  assumes wf: "index_wf md5 st"
  shows "records_of_url (snd (store_article md5 st url title content source_type meta now iso1 iso2)) url =
     [\<lparr> article_id = hash_url md5 url, article_url = url, article_title = title,
        article_source_type = source_type, timestamp = now, date_added = iso1,
        metadata = (case meta of None \<Rightarrow> [] | Some m \<Rightarrow> m) \<rparr>]"
proof -
  let ?st' = "snd (store_article md5 st url title content source_type meta now iso1 iso2)"
  let ?a = "\<lparr> article_id = hash_url md5 url, article_url = url, article_title = title,
                  article_source_type = source_type, timestamp = now, date_added = iso1,
                  metadata = (case meta of None \<Rightarrow> [] | Some m \<Rightarrow> m) \<rparr>"
  have wf': "index_wf md5 ?st'" using wf by (rule store_article_wf)
  have look: "map_of (articles (index_file ?st')) (hash_url md5 url) = Some ?a"
    by (simp add: store_article_result update_conv')
  have keyed: "\<forall>kv \<in> set (articles (index_file ?st')). article_url (snd kv) = url \<longrightarrow> fst kv = hash_url md5 url"
    using wf' by (auto simp: index_wf_def)
  have "filter (\<lambda>a. article_url a = url) (map snd (articles (index_file ?st'))) = [?a]"
    by (rule filter_single_key[OF _ keyed look]) (use wf' in \<open>simp_all add: index_wf_def\<close>)
  then show ?thesis by (simp add: records_of_url_def)
qed

text \<open>
  Claim C4. On a well-formed index, two calls of \<open>store_article\<close> with the same url return
  the same id, the hash of the url. After the second call the content file holds the second
  content, the index record under the id is the one built from the second call's arguments
  (title, source type, metadata), it is the only record of the index with that url, and
  the index has as many records as after the first call.
\<close>

theorem store_article_twice:
  assumes wf: "index_wf md5 st"
  shows "(let (id1, st1) = store_article md5 st url title1 content1 type1 meta1 now1 iso1 iso1';
              (id2, st2) = store_article md5 st1 url title2 content2 type2 meta2 now2 iso2 iso2';
              record2 = \<lparr> article_id = id2, article_url = url, article_title = title2,
                          article_source_type = type2, timestamp = now2, date_added = iso2,
                          metadata = (case meta2 of None \<Rightarrow> [] | Some m \<Rightarrow> m) \<rparr>
          in id1 = hash_url md5 url \<and> id2 = id1 \<and>
             map_of (content_files st1) id1 = Some content1 \<and>
             map_of (content_files st2) id2 = Some content2 \<and>
             map_of (articles (index_file st2)) id2 = Some record2 \<and>
             records_of_url st2 url = [record2] \<and>
             length (articles (index_file st2)) = length (articles (index_file st1)) \<and>
             index_wf md5 st2)"
proof -
  let ?r1 = "store_article md5 st url title1 content1 type1 meta1 now1 iso1 iso1'"
  let ?r2 = "store_article md5 (snd ?r1) url title2 content2 type2 meta2 now2 iso2 iso2'"
  have wf1: "index_wf md5 (snd ?r1)" using wf by (rule store_article_wf)
  have wf2: "index_wf md5 (snd ?r2)" using wf1 by (rule store_article_wf)
  have ids: "fst ?r1 = hash_url md5 url" "fst ?r2 = hash_url md5 url"
    by (simp_all add: store_article_result)
  have c1: "map_of (content_files (snd ?r1)) (hash_url md5 url) = Some content1"
    by (simp add: store_article_result update_conv')
  have c2: "map_of (content_files (snd ?r2)) (hash_url md5 url) = Some content2"
    by (simp add: store_article_result update_conv')
  have look: "map_of (articles (index_file (snd ?r2))) (hash_url md5 url) =
      Some \<lparr> article_id = hash_url md5 url, article_url = url, article_title = title2,
             article_source_type = type2, timestamp = now2, date_added = iso2,
             metadata = (case meta2 of None \<Rightarrow> [] | Some m \<Rightarrow> m) \<rparr>"
    by (simp add: store_article_result update_conv')
  have one: "records_of_url (snd ?r2) url =
      [\<lparr> article_id = hash_url md5 url, article_url = url, article_title = title2,
             article_source_type = type2, timestamp = now2, date_added = iso2,
             metadata = (case meta2 of None \<Rightarrow> [] | Some m \<Rightarrow> m) \<rparr>]"
    using wf1 by (rule records_of_url_stored)
  have present: "map_of (articles (index_file (snd ?r1))) (hash_url md5 url) =
      Some \<lparr> article_id = hash_url md5 url, article_url = url, article_title = title1,
             article_source_type = type1, timestamp = now1, date_added = iso1,
             metadata = (case meta1 of None \<Rightarrow> [] | Some m \<Rightarrow> m) \<rparr>"
    by (simp add: store_article_result update_conv')
  have len: "length (articles (index_file (snd ?r2))) = length (articles (index_file (snd ?r1)))"
    using length_update_present[OF present]
    by (simp add: store_article_result[of md5 "snd ?r1"])
  show ?thesis
    using ids c1 c2 look one len wf2 by (simp add: split_def Let_def)
qed

theorem store_article_twice_witness:
  "index_wf example_md5 (article_storage_init ''t0'') \<and>
   (let r1 = store_article example_md5 (article_storage_init ''t0'')
               ''http://x'' ''T'' ''old'' ''web'' None 1 ''t1'' ''t2'';
        r2 = store_article example_md5 (snd r1)
               ''http://x'' ''T'' ''new'' ''web'' (Some [(''k'', JStr ''v'')]) 2 ''t3'' ''t4''
    in fst r1 = ''h:http://x'' \<and> fst r2 = fst r1 \<and>
       map_of (content_files (snd r2)) (fst r2) = Some ''new'' \<and>
       map (\<lambda>a. (article_url a, metadata a)) (records_of_url (snd r2) ''http://x'') =
         [(''http://x'', [(''k'', JStr ''v'')])])"
proof -
  have wf: "index_wf example_md5 (article_storage_init ''t0'')"
    by (simp add: index_wf_def article_storage_init_def)
  let ?r1 = "store_article example_md5 (article_storage_init ''t0'')
               ''http://x'' ''T'' ''old'' ''web'' None 1 ''t1'' ''t2''"
  let ?r2 = "store_article example_md5 (snd ?r1)
               ''http://x'' ''T'' ''new'' ''web'' (Some [(''k'', JStr ''v'')]) 2 ''t3'' ''t4''"
  note t = store_article_twice[OF wf, of "''http://x''" "''T''" "''old''" "''web''" None 1 "''t1''" "''t2''"
      "''T''" "''new''" "''web''" "Some [(''k'', JStr ''v'')]" 2 "''t3''" "''t4''",
      unfolded Let_def split_def]
  from t have i1: "fst ?r1 = hash_url example_md5 ''http://x''"
    by blast
  from t have i2: "fst ?r2 = fst ?r1"
    by blast
  from t have c: "map_of (content_files (snd ?r2)) (fst ?r2) = Some ''new''"
    by blast
  from t have r: "records_of_url (snd ?r2) ''http://x'' =
      [\<lparr> article_id = fst ?r2, article_url = ''http://x'', article_title = ''T'',
          article_source_type = ''web'', timestamp = 2, date_added = ''t3'',
          metadata = (case Some [(''k'', JStr ''v'')] of None \<Rightarrow> [] | Some m \<Rightarrow> m) \<rparr>]"
    by blast
  have m: "map (\<lambda>a. (article_url a, metadata a)) (records_of_url (snd ?r2) ''http://x'') =
         [(''http://x'', [(''k'', JStr ''v'')])]"
    by (simp only: r) simp
  have i1': "fst ?r1 = ''h:http://x''"
    using i1 by (simp add: hash_url_def example_md5_def)
  show ?thesis
    unfolding Let_def using wf i1' i2 c m by blast
qed

lemma update_keys_present: "map_of al k = Some v \<Longrightarrow> map fst (AList.update k w al) = map fst al"
  by (simp add: update_keys) (metis image_eqI fst_conv map_of_SomeD)

text \<open>
  Claim C10. With an article id that is not in the index, \<open>add_summary_to_article\<close> returns
  \<open>False\<close> and the storage is unchanged. With an id that is in the index it returns \<open>True\<close>;
  the content files, the time of the last update, the keys of the index and every other
  record are unchanged, and the record of the id differs only in its metadata, which now
  hold the summary and the summary date and are unchanged at every other key.
\<close>

theorem add_summary_to_article_effect:
  "(map_of (articles (index_file st)) aid = None \<longrightarrow>
      add_summary_to_article st aid summary now = (False, st)) \<and>
   (\<forall>a. map_of (articles (index_file st)) aid = Some a \<longrightarrow>
      (let (ok, st') = add_summary_to_article st aid summary now
       in ok \<and> content_files st' = content_files st \<and>
          index_last_updated (index_file st') = index_last_updated (index_file st) \<and>
          map fst (articles (index_file st')) = map fst (articles (index_file st)) \<and>
          (\<forall>k. k \<noteq> aid \<longrightarrow>
             map_of (articles (index_file st')) k = map_of (articles (index_file st)) k) \<and>
          (\<exists>m. map_of (articles (index_file st')) aid = Some (a\<lparr>metadata := m\<rparr>) \<and>
               map_of m ''summary'' = Some (JStr summary) \<and>
               map_of m ''summary_date'' = Some (JStr now) \<and>
               (\<forall>k. k \<noteq> ''summary'' \<and> k \<noteq> ''summary_date'' \<longrightarrow>
                  map_of m k = map_of (metadata a) k))))"
proof (intro conjI allI impI)
  assume "map_of (articles (index_file st)) aid = None"
  then show "add_summary_to_article st aid summary now = (False, st)"
    by (simp add: add_summary_to_article_def)
next
  fix a
  assume a: "map_of (articles (index_file st)) aid = Some a"
  let ?m = "AList.update ''summary_date'' (JStr now)
              (AList.update ''summary'' (JStr summary) (metadata a))"
  have res: "add_summary_to_article st aid summary now =
      (True, st\<lparr>index_file := (index_file st)\<lparr>articles :=
          AList.update aid (a\<lparr>metadata := ?m\<rparr>) (articles (index_file st))\<rparr>\<rparr>)"
    using a by (simp add: add_summary_to_article_def Let_def)
  have keys: "map fst (AList.update aid (a\<lparr>metadata := ?m\<rparr>) (articles (index_file st))) =
      map fst (articles (index_file st))"
    using a by (rule update_keys_present)
  have m: "map_of ?m ''summary'' = Some (JStr summary) \<and>
           map_of ?m ''summary_date'' = Some (JStr now) \<and>
           (\<forall>k. k \<noteq> ''summary'' \<and> k \<noteq> ''summary_date'' \<longrightarrow> map_of ?m k = map_of (metadata a) k)"
    by (simp add: update_conv')
  have ex: "\<exists>m. map_of (AList.update aid (a\<lparr>metadata := ?m\<rparr>) (articles (index_file st))) aid =
               Some (a\<lparr>metadata := m\<rparr>) \<and>
               map_of m ''summary'' = Some (JStr summary) \<and>
               map_of m ''summary_date'' = Some (JStr now) \<and>
               (\<forall>k. k \<noteq> ''summary'' \<and> k \<noteq> ''summary_date'' \<longrightarrow>
                  map_of m k = map_of (metadata a) k)"
    using m by (intro exI[of _ ?m]) (simp add: update_conv')
  show "let (ok, st') = add_summary_to_article st aid summary now
       in ok \<and> content_files st' = content_files st \<and>
          index_last_updated (index_file st') = index_last_updated (index_file st) \<and>
          map fst (articles (index_file st')) = map fst (articles (index_file st)) \<and>
          (\<forall>k. k \<noteq> aid \<longrightarrow>
             map_of (articles (index_file st')) k = map_of (articles (index_file st)) k) \<and>
          (\<exists>m. map_of (articles (index_file st')) aid = Some (a\<lparr>metadata := m\<rparr>) \<and>
               map_of m ''summary'' = Some (JStr summary) \<and>
               map_of m ''summary_date'' = Some (JStr now) \<and>
               (\<forall>k. k \<noteq> ''summary'' \<and> k \<noteq> ''summary_date'' \<longrightarrow>
                  map_of m k = map_of (metadata a) k))"
    using keys ex by (simp add: res update_conv')
qed

theorem add_summary_to_article_witness:
  "(let st = snd (store_article example_md5 (article_storage_init ''t0'')
                   ''http://x'' ''T'' ''text'' ''web'' None 1 ''t1'' ''t2'')
    in add_summary_to_article st ''h:http://y'' ''S'' ''t3'' = (False, st) \<and>
       fst (add_summary_to_article st ''h:http://x'' ''S'' ''t3'') \<and>
       map (\<lambda>kv. (fst kv, metadata (snd kv)))
           (articles (index_file (snd (add_summary_to_article st ''h:http://x'' ''S'' ''t3'')))) =
         [(''h:http://x'', [(''summary'', JStr ''S''), (''summary_date'', JStr ''t3'')])])"
proof -
  let ?st = "snd (store_article example_md5 (article_storage_init ''t0'')
                   ''http://x'' ''T'' ''text'' ''web'' None 1 ''t1'' ''t2'')"
  have absent: "map_of (articles (index_file ?st)) ''h:http://y'' = None"
    by (simp add: store_article_def article_storage_init_def hash_url_def example_md5_def Let_def)
  have "add_summary_to_article ?st ''h:http://y'' ''S'' ''t3'' = (False, ?st)"
    using add_summary_to_article_effect[of ?st "''h:http://y''" "''S''" "''t3''"] absent by blast
  moreover have "fst (add_summary_to_article ?st ''h:http://x'' ''S'' ''t3'')"
  proof -
    have "\<exists>a. map_of (articles (index_file ?st)) ''h:http://x'' = Some a"
      by (simp add: store_article_def article_storage_init_def hash_url_def example_md5_def Let_def)
    then show ?thesis
      using add_summary_to_article_effect[of ?st "''h:http://x''" "''S''" "''t3''",
          unfolded Let_def split_def]
      by blast
  qed
  moreover have "map (\<lambda>kv. (fst kv, metadata (snd kv)))
           (articles (index_file (snd (add_summary_to_article ?st ''h:http://x'' ''S'' ''t3'')))) =
         [(''h:http://x'', [(''summary'', JStr ''S''), (''summary_date'', JStr ''t3'')])]"
    by (simp add: add_summary_to_article_def store_article_def article_storage_init_def
          hash_url_def example_md5_def Let_def)
  ultimately show ?thesis by (simp add: Let_def)
qed

text \<open>Adding a summary keeps the index well-formed.\<close>

lemma add_summary_to_article_wf:
  assumes "index_wf md5 st"
  shows "index_wf md5 (snd (add_summary_to_article st aid summary now))"
proof (cases "map_of (articles (index_file st)) aid")
  case None
  then show ?thesis using assms by (simp add: add_summary_to_article_def)
next
  case (Some a)
  let ?a' = "a\<lparr>metadata := AList.update ''summary_date'' (JStr now)
              (AList.update ''summary'' (JStr summary) (metadata a))\<rparr>"
  let ?al = "AList.update aid ?a' (articles (index_file st))"
  have res: "snd (add_summary_to_article st aid summary now) =
      st\<lparr>index_file := (index_file st)\<lparr>articles := ?al\<rparr>\<rparr>"
    using Some by (simp add: add_summary_to_article_def Let_def)
  have key: "aid = hash_url md5 (article_url a)"
    using assms map_of_SomeD[OF Some] by (force simp: index_wf_def)
  have "fst kv = hash_url md5 (article_url (snd kv))" if "kv \<in> set ?al" for kv
  proof -
    from that set_update_subset[of aid ?a' "articles (index_file st)"]
    have "kv = (aid, ?a') \<or> kv \<in> set (articles (index_file st))" by auto
    then show ?thesis using assms key by (auto simp: index_wf_def)
  qed
  moreover have "distinct (map fst ?al)"
    using assms by (simp add: index_wf_def distinct_update)
  ultimately show ?thesis by (simp add: res index_wf_def)
qed

subsection \<open>RateLimitHandler\<close>

lemma wait_if_needed_request:
  "fst (wait_if_needed rl service now stamp) =
     max 0 (get_or_zero (service_min_interval rl) service -
            (now - get_or_zero (service_last_call rl) service))"
  by (simp add: wait_if_needed_def should_wait_def Let_def max_def)

lemma wait_if_needed_last_call:
  "get_or_zero (service_last_call (snd (wait_if_needed rl service now stamp))) service = stamp"
  by (simp add: wait_if_needed_def update_last_call_def get_or_zero_def update_conv' Let_def)

lemma wait_if_needed_other_service:
  "service' \<noteq> service \<Longrightarrow>
   get_or_zero (service_last_call (snd (wait_if_needed rl service now stamp))) service' =
   get_or_zero (service_last_call rl) service'"
  by (simp add: wait_if_needed_def update_last_call_def get_or_zero_def update_conv' Let_def)

lemma wait_if_needed_min_interval:
  "service_min_interval (snd (wait_if_needed rl service now stamp)) = service_min_interval rl"
  by (simp add: wait_if_needed_def update_last_call_def Let_def)



text \<open>
  What follows for the gap: it is at least the minimum interval when the second reading
  of the second call is not below its first reading plus the requested sleep.
\<close>

lemma wait_if_needed_gap_when_clock_keeps_up:
  assumes "now2 + fst (wait_if_needed (snd (wait_if_needed rl service now1 stamp1)) service now2 stamp2)
           \<le> stamp2"
  shows "get_or_zero (service_min_interval rl) service \<le>
         get_or_zero (service_last_call
           (snd (wait_if_needed (snd (wait_if_needed rl service now1 stamp1)) service now2 stamp2)))
           service -
         get_or_zero (service_last_call (snd (wait_if_needed rl service now1 stamp1))) service"
  using assms
  by (simp add: wait_if_needed_last_call wait_if_needed_request wait_if_needed_min_interval
        max_def split: if_splits)

subsection \<open>The pipeline's top-level exception handler\<close>

lemma log_exception_some:
  "log_exception e message (Some rd) (Some save) now =
     (save (rd\<lparr>rd_errors := Some ((case rd_errors rd of None \<Rightarrow> [] | Some es \<Rightarrow> es) @
              [\<lparr> err_timestamp = now, err_message = message, err_error = exc_str e,
                 err_traceback = exc_traceback e \<rparr>])\<rparr>),
      Some (rd\<lparr>rd_errors := Some ((case rd_errors rd of None \<Rightarrow> [] | Some es \<Rightarrow> es) @
              [\<lparr> err_timestamp = now, err_message = message, err_error = exc_str e,
                 err_traceback = exc_traceback e \<rparr>])\<rparr>))"
  by (simp add: log_exception_def Let_def)

text \<open>
  Claim C1, at a run the claim fails on: the first research step raises, the handler logs
  the exception and returns the empty string, and the status of the session record is still
  \<open>researching\<close>, not \<open>error\<close>.
\<close>

theorem generate_research_paper_status_counterexample:
  "generate_research_paper save_ok [] ''Quantum Computing'' [failing_step] None
       ''paper.md'' ''2024-01-01T00:00:00'' load_research_data =
     (Returns [],
      \<lparr> rd_topic = ''Quantum Computing'', rd_status = ''researching'',
        rd_errors = Some [\<lparr> err_timestamp = ''2024-01-01T00:00:00'',
                            err_message = ''Error in research paper generation'',
                            err_error = ''boom'', err_traceback = ''Traceback: boom'' \<rparr>] \<rparr>) \<and>
   rd_status (snd (generate_research_paper save_ok [] ''Quantum Computing'' [failing_step] None
       ''paper.md'' ''2024-01-01T00:00:00'' load_research_data)) \<noteq> ''error''"
  by (simp add: generate_research_paper_def try_block_def log_exception_some begin_research_def
        save_step_def failing_step_def save_ok_def load_research_data_def)

text \<open>
  Claim C1, amended. When a step of the \<open>try\<close> block raises an instance of \<open>Exception\<close> and
  saving the session does not raise, \<open>generate_research_paper\<close> returns the empty string, the
  error log of the session record has one more entry, which holds the message, the text of
  the exception and its stack trace, and nothing else of the record changes: the status is
  what the steps left, it is not set to \<open>error\<close>.
\<close>

theorem generate_research_paper_catches:
  assumes raised: "run_steps (try_block save preparation topic research pdf_file) rd = (Some e, rd')"
      and exn: "is_exception e"
      and saved: "save (rd'\<lparr>rd_errors := Some ((case rd_errors rd' of None \<Rightarrow> [] | Some es \<Rightarrow> es) @
              [\<lparr> err_timestamp = now, err_message = ''Error in research paper generation'',
                 err_error = exc_str e, err_traceback = exc_traceback e \<rparr>])\<rparr>) = None"
  shows "generate_research_paper save preparation topic research pdf_file markdown_file now rd =
     (Returns [],
      rd'\<lparr>rd_errors := Some ((case rd_errors rd' of None \<Rightarrow> [] | Some es \<Rightarrow> es) @
              [\<lparr> err_timestamp = now, err_message = ''Error in research paper generation'',
                 err_error = exc_str e, err_traceback = exc_traceback e \<rparr>])\<rparr>) \<and>
     rd_status (snd (generate_research_paper save preparation topic research pdf_file
                       markdown_file now rd)) = rd_status rd'"
  using assms by (simp add: generate_research_paper_def log_exception_some)

theorem generate_research_paper_catches_witness:
  "run_steps (try_block save_ok [] ''T'' [failing_step] None) load_research_data =
     (Some \<lparr> exc_type = ''ValueError'', is_exception = True, exc_str = ''boom'',
             exc_traceback = ''Traceback: boom'' \<rparr>,
      \<lparr> rd_topic = ''T'', rd_status = ''researching'', rd_errors = None \<rparr>) \<and>
   fst (generate_research_paper save_ok [] ''T'' [failing_step] None ''paper.md'' ''now''
          load_research_data) = Returns [] \<and>
   rd_status (snd (generate_research_paper save_ok [] ''T'' [failing_step] None ''paper.md''
          ''now'' load_research_data)) = ''researching''"
proof -
  let ?e = "\<lparr> exc_type = ''ValueError'', is_exception = True, exc_str = ''boom'',
             exc_traceback = ''Traceback: boom'' \<rparr>"
  let ?rd' = "\<lparr> rd_topic = ''T'', rd_status = ''researching'', rd_errors = None \<rparr>"
  have raised: "run_steps (try_block save_ok [] ''T'' [failing_step] None) load_research_data =
      (Some ?e, ?rd')"
    by (simp add: try_block_def begin_research_def save_step_def save_ok_def failing_step_def
          load_research_data_def)
  have exn: "is_exception ?e" by simp
  have saved: "save_ok (?rd'\<lparr>rd_errors := Some ((case rd_errors ?rd' of None \<Rightarrow> [] | Some es \<Rightarrow> es) @
              [\<lparr> err_timestamp = ''now'', err_message = ''Error in research paper generation'',
                 err_error = exc_str ?e, err_traceback = exc_traceback ?e \<rparr>])\<rparr>) = None"
    by (simp add: save_ok_def)
  note t = generate_research_paper_catches[where save = save_ok and now = "''now''" and
      markdown_file = "''paper.md''", OF raised exn saved]
  from t have "fst (generate_research_paper save_ok [] ''T'' [failing_step] None ''paper.md''
      ''now'' load_research_data) = Returns []"
    by simp
  moreover from t have "rd_status (snd (generate_research_paper save_ok [] ''T''
      [failing_step] None ''paper.md'' ''now'' load_research_data)) = ''researching''"
    by simp
  ultimately show ?thesis using raised by blast
qed

text \<open>
  The other ways out of the function: an exception that is not an instance of \<open>Exception\<close>
  is not caught, an exception raised by the save inside the handler leaves the function, and
  a run in which no step raises returns the file. A run without research steps whose
  conversion gave a file ends with the status \<open>completed\<close>.
\<close>

lemma generate_research_paper_not_caught:
  "run_steps (try_block save preparation topic research pdf_file) rd = (Some e, rd') \<Longrightarrow>
   \<not> is_exception e \<Longrightarrow>
   generate_research_paper save preparation topic research pdf_file markdown_file now rd =
     (Propagates e, rd')"
  by (simp add: generate_research_paper_def)

lemma generate_research_paper_handler_raises:
  "run_steps (try_block save preparation topic research pdf_file) rd = (Some e, rd') \<Longrightarrow>
   is_exception e \<Longrightarrow>
   save (rd'\<lparr>rd_errors := Some ((case rd_errors rd' of None \<Rightarrow> [] | Some es \<Rightarrow> es) @
              [\<lparr> err_timestamp = now, err_message = ''Error in research paper generation'',
                 err_error = exc_str e, err_traceback = exc_traceback e \<rparr>])\<rparr>) = Some e' \<Longrightarrow>
   fst (generate_research_paper save preparation topic research pdf_file markdown_file now rd) =
     Propagates e'"
  by (simp add: generate_research_paper_def log_exception_some)

lemma generate_research_paper_completes:
  "run_steps (try_block save preparation topic research pdf_file) rd = (None, rd') \<Longrightarrow>
   generate_research_paper save preparation topic research pdf_file markdown_file now rd =
     (Returns markdown_file, rd')"
  by (simp add: generate_research_paper_def)

lemma generate_research_paper_completed_example:
  "generate_research_paper save_ok [] ''T'' [] (Some ''paper.pdf'') ''paper.md'' ''now''
       load_research_data =
     (Returns ''paper.md'', \<lparr> rd_topic = ''T'', rd_status = ''completed'', rd_errors = None \<rparr>)"
  by (simp add: generate_research_paper_def try_block_def begin_research_def save_step_def
        complete_research_def truthy_def save_ok_def load_research_data_def)

text \<open>
  What the web layer makes of the handler's result: the empty string is not the path of a
  file, so opening it fails and the entry of the session in \<open>active_sessions\<close> gets the status
  \<open>error\<close>. The session record \<open>research_data\<close> is not touched by this.
\<close>

lemma run_research_async_empty_path:
  "run_research_async files open_error write_error error_report (Returns []) ws =
     (ws\<lparr>ws_status := ''error'', ws_error := Some (open_error [])\<rparr>, None)"
  by (simp add: run_research_async_def open_read_def)

lemma run_research_async_completed:
  "markdown_file \<noteq> [] \<Longrightarrow> files markdown_file = Some content \<Longrightarrow>
   run_research_async files open_error write_error error_report (Returns markdown_file) ws =
     (ws\<lparr>ws_markdown_content := content, ws_markdown_file := Some markdown_file,
         ws_status := ''completed''\<rparr>, None)"
  by (simp add: run_research_async_def open_read_def)

subsection \<open>ContentOptimizer.is_redundant\<close>


























text \<open>
  The underscore is a word character: it is kept, and a text with an underscore and the
  text without it have different normalized forms.
\<close>

lemma normalize_underscore:
  "normalize_content ''the fox_jumps'' = ''the fox_jumps'' \<and>
   normalize_content ''the foxjumps'' = ''the foxjumps''"
  by code_simp

text \<open>
  A character that is removed, between two spaces: the whitespace is collapsed before the
  character is removed, so the two spaces around it stay, and the text without the
  character is not recognised as a repeat.
\<close>

lemma normalize_dashed:
  "normalize_content dashed_text = ''the quick brown fox  jumps over the lazy dog again and again''"
  by code_simp

lemma normalize_undashed:
  "normalize_content undashed_text = ''the quick brown fox jumps over the lazy dog again and again''"
  by code_simp

lemma is_redundant_dash_between_spaces:
  "dashed_text = take 20 undashed_text @ ''-'' @ drop 20 undashed_text \<and>
   is_redundant example_hash {} dashed_text = (False, {60}) \<and>
   is_redundant example_hash {60} undashed_text = (False, {59, 60})"
  by (simp add: is_redundant_def normalize_dashed normalize_undashed example_hash_def Let_def)
     (simp add: dashed_text_def undashed_text_def)

end
